theory Spec2Isabelle
  imports Main "HOL-Library.Sublist" "HOL-Library.AList"
begin

section \<open>Python values used by \<^verbatim>\<open>processor.py\<close>\<close>

text \<open>
  Strings are lists of 8-bit characters, read as the code points 0 to 255. In that range the
  regular-expression class \<^verbatim>\<open>\d\<close> and \<^verbatim>\<open>int()\<close> know the ten ASCII digits only.
  Every exception the source can raise is a value of \<open>error\<close>; a function that may raise
  returns \<open>error + 'a\<close> with \<open>Inl\<close> for the exception.
\<close>

datatype error =
    ValueError string
  | OverflowError string
  | OSError string
  | FileNotFoundError string
  | SameFileError
  | InvalidFileException
  | RuntimeError string
  | UnicodeDecodeError

definition is_digit :: "char \<Rightarrow> bool" where
  "is_digit c = (c \<in> set ''0123456789'')"

definition digit_val :: "char \<Rightarrow> nat" where
  "digit_val c = of_char c - 48"

definition digit_char :: "nat \<Rightarrow> char" where
  "digit_char n = ''0123456789'' ! (n mod 10)"

text \<open>\<^verbatim>\<open>str.isspace\<close> on the code points below 256.\<close>

definition py_isspace :: "char \<Rightarrow> bool" where
  "py_isspace c = ((of_char c :: nat) \<in> {9, 10, 11, 12, 13, 28, 29, 30, 31, 32, 133, 160})"

definition py_strip :: "string \<Rightarrow> string" where
  "py_strip s = rev (dropWhile py_isspace (rev (dropWhile py_isspace s)))"

text \<open>\<^verbatim>\<open>s.split(sep)\<close> for a one-character separator: always at least one field.\<close>

fun py_split :: "char \<Rightarrow> string \<Rightarrow> string list" where
  "py_split sep [] = [] # []"
| "py_split sep (c # cs) =
     (if c = sep then [] # py_split sep cs
      else (case py_split sep cs of
              [] \<Rightarrow> [c] # []
            | w # ws \<Rightarrow> (c # w) # ws))"

text \<open>\<^verbatim>\<open>sep.join(xs)\<close>.\<close>

fun py_join :: "string \<Rightarrow> string list \<Rightarrow> string" where
  "py_join sep [] = []"
| "py_join sep [x] = x"
| "py_join sep (x # y # ys) = x @ sep @ py_join sep (y # ys)"

text \<open>\<^verbatim>\<open>sub in s\<close> for strings.\<close>

fun py_contains :: "string \<Rightarrow> string \<Rightarrow> bool" where
  "py_contains sub [] = (sub = [])"
| "py_contains sub (c # cs) = (prefix sub (c # cs) \<or> py_contains sub cs)"

text \<open>
  \<^verbatim>\<open>int(s)\<close> on a string: surrounding whitespace is skipped, one sign is allowed, and
  single underscores may separate digits. Anything else is a \<^verbatim>\<open>ValueError\<close>, and so is a
  literal of more than 4300 digits (the interpreter's default limit). The whitespace that
  \<^verbatim>\<open>int\<close> skips is narrower than that of \<^verbatim>\<open>str.strip\<close>: the separators 0x1C to 0x1F are
  not part of it.
\<close>

definition int_isspace :: "char \<Rightarrow> bool" where
  "int_isspace c = ((of_char c :: nat) \<in> {9, 10, 11, 12, 13, 32, 133, 160})"

fun adjacent_underscores :: "string \<Rightarrow> bool" where
  "adjacent_underscores (a # b # cs) =
     ((a = CHR ''_'' \<and> b = CHR ''_'') \<or> adjacent_underscores (b # cs))"
| "adjacent_underscores _ = False"

definition py_digits :: "string \<Rightarrow> nat option" where
  "py_digits s =
     (if s = [] \<or> \<not> is_digit (hd s) \<or> \<not> is_digit (last s) \<or> adjacent_underscores s
         \<or> \<not> list_all (\<lambda>c. is_digit c \<or> c = CHR ''_'') s
         \<or> 4300 < length (filter is_digit s)
      then None
      else Some (foldl (\<lambda>a c. 10 * a + digit_val c) 0 (filter is_digit s)))"

definition py_int :: "string \<Rightarrow> error + int" where
  "py_int s =
     (let t = rev (dropWhile int_isspace (rev (dropWhile int_isspace s)));
          r = (case t of
                 [] \<Rightarrow> None
               | c # cs \<Rightarrow>
                   if c = CHR ''-'' then map_option (\<lambda>n. - int n) (py_digits cs)
                   else if c = CHR ''+'' then map_option int (py_digits cs)
                   else map_option int (py_digits t))
      in case r of
           None \<Rightarrow> Inl (ValueError ''invalid literal for int() with base 10'')
         | Some n \<Rightarrow> Inr n)"

text \<open>Decimal output: \<^verbatim>\<open>str(n)\<close>, and zero padding to two and four places.\<close>

fun dec_digits :: "nat \<Rightarrow> nat \<Rightarrow> string" where
  "dec_digits 0 n = []"
| "dec_digits (Suc k) n = dec_digits k (n div 10) @ [digit_char n]"

definition pad2 :: "nat \<Rightarrow> string" where
  "pad2 n = dec_digits 2 n"

definition pad4 :: "nat \<Rightarrow> string" where
  "pad4 n = dec_digits 4 n"

function str_nat :: "nat \<Rightarrow> string" where
  "str_nat n = (if n < 10 then [digit_char n] else str_nat (n div 10) @ [digit_char n])"
  by pat_completeness auto
termination
  by (relation "measure id") auto

definition str_int :: "int \<Rightarrow> string" where
  "str_int i = (if i < 0 then CHR ''-'' # str_nat (nat (- i)) else str_nat (nat i))"

section \<open>Paths (\<^verbatim>\<open>posixpath\<close>)\<close>

definition os_path_basename :: "string \<Rightarrow> string" where
  "os_path_basename p = rev (takeWhile (\<lambda>c. c \<noteq> CHR ''/'') (rev p))"

text \<open>
  \<^verbatim>\<open>dirname\<close>: everything up to the last slash, with trailing slashes removed unless the
  head consists of slashes only.
\<close>

definition os_path_dirname :: "string \<Rightarrow> string" where
  "os_path_dirname p =
     (let head = rev (dropWhile (\<lambda>c. c \<noteq> CHR ''/'') (rev p))
      in if head \<noteq> [] \<and> \<not> list_all (\<lambda>c. c = CHR ''/'') head
         then rev (dropWhile (\<lambda>c. c = CHR ''/'') (rev head))
         else head)"

definition join2 :: "string \<Rightarrow> string \<Rightarrow> string" where
  "join2 path b =
     (if prefix ''/'' b then b
      else if path = [] \<or> last path = CHR ''/'' then path @ b
      else path @ ''/'' @ b)"

definition os_path_join :: "string \<Rightarrow> string list \<Rightarrow> string" where
  "os_path_join a ps = foldl join2 a ps"

text \<open>
  \<^verbatim>\<open>splitext\<close>: the extension starts at the last dot, provided that dot comes after the
  last slash and is preceded in its file name by a character that is not a dot.
\<close>

definition os_path_splitext :: "string \<Rightarrow> string \<times> string" where
  "os_path_splitext p =
     (let ext = rev (takeWhile (\<lambda>c. c \<noteq> CHR ''.'') (rev p))
      in if CHR ''.'' \<notin> set p \<or> CHR ''/'' \<in> set ext then (p, [])
         else let root = take (length p - length ext - 1) p
              in if list_all (\<lambda>c. c = CHR ''.'') (os_path_basename root) then (p, [])
                 else (root, CHR ''.'' # ext))"

section \<open>Dates and time zones\<close>

text \<open>
  A \<^verbatim>\<open>tzinfo\<close> object is identified by the zone it was loaded for. A \<^verbatim>\<open>datetime\<close> is
  \<^emph>\<open>aware\<close> when its \<open>tzinfo\<close> field holds such an object and \<^emph>\<open>naive\<close> when it holds
  \<^verbatim>\<open>None\<close>.
\<close>

datatype tzinfo = TzFile string

record datetime =
  year :: nat
  month :: nat
  day :: nat
  hour :: nat
  minute :: nat
  second :: nat
  microsecond :: nat
  tzinfo :: "tzinfo option"

definition aware :: "datetime \<Rightarrow> bool" where
  "aware d = (tzinfo d \<noteq> None)"

definition is_leap :: "nat \<Rightarrow> bool" where
  "is_leap y = (y mod 4 = 0 \<and> (y mod 100 \<noteq> 0 \<or> y mod 400 = 0))"

definition days_in_month :: "nat \<Rightarrow> nat \<Rightarrow> nat" where
  "days_in_month y m =
     (if m = 2 then (if is_leap y then 29 else 28)
      else if m \<in> {4, 6, 9, 11} then 30 else 31)"

text \<open>
  The constructor \<^verbatim>\<open>datetime(year, month, day, tzinfo=tz)\<close> checks its fields and raises
  \<^verbatim>\<open>ValueError\<close> outside the ranges.
\<close>

definition mk_datetime :: "int \<Rightarrow> int \<Rightarrow> int \<Rightarrow> tzinfo option \<Rightarrow> error + datetime" where
  "mk_datetime y m d tz =
     (if \<not> (1 \<le> y \<and> y \<le> 9999) then Inl (ValueError ''year is out of range'')
      else if \<not> (1 \<le> m \<and> m \<le> 12) then Inl (ValueError ''month must be in 1..12'')
      else if \<not> (1 \<le> d \<and> d \<le> int (days_in_month (nat y) (nat m)))
        then Inl (ValueError ''day is out of range for month'')
      else Inr \<lparr>year = nat y, month = nat m, day = nat d, hour = 0, minute = 0, second = 0,
                microsecond = 0, tzinfo = tz\<rparr>)"

text \<open>
  \<^verbatim>\<open>d.replace(hour=h, minute=m, second=0, microsecond=0)\<close>; the date fields of an existing
  object are in range already.
\<close>

definition replace_time :: "datetime \<Rightarrow> int \<Rightarrow> int \<Rightarrow> error + datetime" where
  "replace_time d h m =
     (if \<not> (0 \<le> h \<and> h \<le> 23) then Inl (ValueError ''hour must be in 0..23'')
      else if \<not> (0 \<le> m \<and> m \<le> 59) then Inl (ValueError ''minute must be in 0..59'')
      else Inr (d\<lparr>hour := nat h, minute := nat m, second := 0, microsecond := 0\<rparr>))"

text \<open>
  \<^verbatim>\<open>d + timedelta(days=1)\<close> and \<^verbatim>\<open>d - timedelta(days=1)\<close>: wall-clock arithmetic that keeps
  the time of day and the \<open>tzinfo\<close>, and raises \<^verbatim>\<open>OverflowError\<close> beyond years 1 to 9999.
\<close>

definition plus_one_day :: "datetime \<Rightarrow> error + datetime" where
  "plus_one_day d =
     (if day d < days_in_month (year d) (month d) then Inr (d\<lparr>day := day d + 1\<rparr>)
      else if month d < 12 then Inr (d\<lparr>month := month d + 1, day := 1\<rparr>)
      else if year d < 9999 then Inr (d\<lparr>year := year d + 1, month := 1, day := 1\<rparr>)
      else Inl (OverflowError ''date value out of range''))"

definition minus_one_day :: "datetime \<Rightarrow> error + datetime" where
  "minus_one_day d =
     (if 1 < day d then Inr (d\<lparr>day := day d - 1\<rparr>)
      else if 1 < month d
        then Inr (d\<lparr>month := month d - 1, day := days_in_month (year d) (month d - 1)\<rparr>)
      else if 1 < year d then Inr (d\<lparr>year := year d - 1, month := 12, day := 31\<rparr>)
      else Inl (OverflowError ''date value out of range''))"

text \<open>The \<^verbatim>\<open>strftime\<close> formats of the source that need no offset.\<close>

definition strftime_mdy :: "datetime \<Rightarrow> string" where
  \<comment> \<open>\<^verbatim>\<open>%m%d%y\<close>\<close>
  "strftime_mdy d = pad2 (month d) @ pad2 (day d) @ pad2 (year d mod 100)"

definition strftime_ymd :: "datetime \<Rightarrow> string" where
  \<comment> \<open>\<^verbatim>\<open>%Y-%m-%d\<close>\<close>
  "strftime_ymd d = pad4 (year d) @ ''-'' @ pad2 (month d) @ ''-'' @ pad2 (day d)"

section \<open>The processor object and its surroundings\<close>

text \<open>
  The fields that \<^verbatim>\<open>WorkbookProcessor.__init__\<close> stores. \<open>libreoffice_available\<close> is the
  result of the probe made at construction; the methods below only read these fields.
\<close>

record processor =
  work_dir :: string
  export_script_path :: string
  export_script_dir :: string
  api_key_id :: string
  api_key :: string
  org_id :: string
  timezone :: string
  export_start_time :: string
  export_end_time :: string
  libreoffice_available :: bool
  venv_path :: string

text \<open>
  \<^verbatim>\<open>__init__\<close>, given its arguments and the outcome of the probe for the office engine. The
  attempt to set up the virtual environment only logs, whatever happens.
\<close>

definition init_processor ::
  "string \<Rightarrow> string \<Rightarrow> string \<Rightarrow> string \<Rightarrow> string \<Rightarrow> string \<Rightarrow> string \<Rightarrow> string \<Rightarrow> bool
     \<Rightarrow> processor" where
  "init_processor wd export_script key_id key org tz start_time end_time found =
     \<lparr>work_dir = wd, export_script_path = export_script,
      export_script_dir = os_path_dirname export_script,
      api_key_id = key_id, api_key = key, org_id = org, timezone = tz,
      export_start_time = start_time, export_end_time = end_time,
      libreoffice_available = found,
      venv_path = os_path_join (os_path_dirname export_script) [''.venv'']\<rparr>"

text \<open>
  What lies outside the program is a parameter of every operation:
  \<^item> \<open>gettz\<close> is \<^verbatim>\<open>dateutil.tz.gettz\<close>, which yields a \<^verbatim>\<open>tzinfo\<close> object, or \<^verbatim>\<open>None\<close>
    when it cannot resolve the name;
  \<^item> \<open>wall_clock tz\<close> gives the fields of \<^verbatim>\<open>datetime.now(tz)\<close>;
  \<^item> \<open>utcoffset\<close> is the offset of a zone at a wall-clock time, in seconds.
\<close>

record clock_env =
  gettz :: "string \<Rightarrow> tzinfo option"
  wall_clock :: "tzinfo option \<Rightarrow> datetime"
  utcoffset :: "tzinfo \<Rightarrow> datetime \<Rightarrow> int"

definition datetime_now :: "'a clock_env_scheme \<Rightarrow> tzinfo option \<Rightarrow> datetime" where
  "datetime_now env tz = (wall_clock env tz)\<lparr>tzinfo := tz\<rparr>"

section \<open>Date Resolver\<close>

text \<open>
  \<^verbatim>\<open>re.search(r'3895th_(\d{6})\.xlsx', s)\<close>: \<open>pattern_at\<close> matches the pattern at the start
  of a string and yields group 1; \<open>re_search\<close> tries every start position from the left and
  stops at the first match.
\<close>

definition pattern_at :: "string \<Rightarrow> string option" where
  "pattern_at s =
     (let r = drop 7 s; ds = take 6 r
      in if prefix ''3895th_'' s \<and> length ds = 6 \<and> list_all is_digit ds
            \<and> prefix ''.xlsx'' (drop 6 r)
         then Some ds else None)"

fun re_search :: "string \<Rightarrow> string option" where
  "re_search [] = pattern_at []"
| "re_search (c # cs) =
     (case pattern_at (c # cs) of
        Some ds \<Rightarrow> Some ds
      | None \<Rightarrow> re_search cs)"

text \<open>The body of the \<^verbatim>\<open>try\<close> block of \<^verbatim>\<open>_extract_date_from_filename\<close>.\<close>

definition extract_date_body ::
  "processor \<Rightarrow> 'a clock_env_scheme \<Rightarrow> string \<Rightarrow> error + datetime option" where
  "extract_date_body p env filename =
     (case re_search (os_path_basename filename) of
        None \<Rightarrow> Inr None
      | Some date_str \<Rightarrow>
          (case py_int (take 2 date_str) of
             Inl e \<Rightarrow> Inl e
           | Inr mm \<Rightarrow>
          (case py_int (take 2 (drop 2 date_str)) of
             Inl e \<Rightarrow> Inl e
           | Inr dd \<Rightarrow>
          (case py_int (take 2 (drop 4 date_str)) of
             Inl e \<Rightarrow> Inl e
           | Inr yy \<Rightarrow>
          (case mk_datetime (yy + 2000) mm dd (gettz env (timezone p)) of
             Inl e \<Rightarrow> Inl e
           | Inr d \<Rightarrow> Inr (Some d))))))"

text \<open>\<^verbatim>\<open>except Exception\<close>: every exception of the body becomes the result \<^verbatim>\<open>None\<close>.\<close>

definition extract_date_from_filename ::
  "processor \<Rightarrow> 'a clock_env_scheme \<Rightarrow> string \<Rightarrow> error + datetime option" where
  "extract_date_from_filename p env filename =
     (case extract_date_body p env filename of
        Inl e \<Rightarrow> Inr None
      | Inr r \<Rightarrow> Inr r)"

definition get_yesterday_date :: "processor \<Rightarrow> 'a clock_env_scheme \<Rightarrow> error + datetime" where
  "get_yesterday_date p env = minus_one_day (datetime_now env (gettz env (timezone p)))"

text \<open>
  The formats that print the offset: \<^verbatim>\<open>%Y-%m-%dT%H:%M:%S%z\<close> and \<^verbatim>\<open>str(d)\<close>. A naive
  \<^verbatim>\<open>datetime\<close> prints no offset. The year is printed with four digits.
\<close>

definition fmt_offset :: "string \<Rightarrow> int \<Rightarrow> string" where
  "fmt_offset sep off =
     (let a = nat \<bar>off\<bar>; h = a div 3600; m = (a mod 3600) div 60; s = a mod 60
      in (if off < 0 then ''-'' else ''+'') @ pad2 h @ sep @ pad2 m
         @ (if s \<noteq> 0 then sep @ pad2 s else []))"

definition offset_suffix :: "'a clock_env_scheme \<Rightarrow> string \<Rightarrow> datetime \<Rightarrow> string" where
  "offset_suffix env sep d =
     (case tzinfo d of
        None \<Rightarrow> []
      | Some z \<Rightarrow> fmt_offset sep (utcoffset env z d))"

definition strftime_iso_z :: "'a clock_env_scheme \<Rightarrow> datetime \<Rightarrow> string" where
  "strftime_iso_z env d =
     strftime_ymd d @ ''T'' @ pad2 (hour d) @ '':'' @ pad2 (minute d) @ '':'' @ pad2 (second d)
     @ offset_suffix env [] d"

definition str_datetime :: "'a clock_env_scheme \<Rightarrow> datetime \<Rightarrow> string" where
  "str_datetime env d =
     strftime_ymd d @ '' '' @ pad2 (hour d) @ '':'' @ pad2 (minute d) @ '':'' @ pad2 (second d)
     @ (if microsecond d \<noteq> 0 then ''.'' @ dec_digits 6 (microsecond d) else [])
     @ offset_suffix env '':'' d"

section \<open>Workbooks and files\<close>

text \<open>
  A worksheet is the dictionary \<^verbatim>\<open>_cells\<close> of the spreadsheet library: cells keyed by
  (row, column), in insertion order, each holding a value or \<^verbatim>\<open>None\<close> for blank. Rows and
  columns count from 1. A workbook is its list of titled sheets. A file holds a workbook or
  something that does not load as one. Directories are not part of the model.
\<close>

datatype cell_value = Number int | Text string | Boolean bool

type_synonym worksheet = "((nat \<times> nat) \<times> cell_value option) list"

type_synonym workbook = "(string \<times> worksheet) list"

datatype file_content = Xlsx workbook | Blob string

type_synonym filesystem = "string \<Rightarrow> file_content option"

datatype proc_result = Completed int string string | LaunchError error | Undecodable

datatype level = INFO | WARNING | ERROR

type_synonym log_entry = "level \<times> string"

text \<open>
  The rest of the surroundings:
  \<^item> \<open>export_tool cmd cwd fs\<close> is \<^verbatim>\<open>subprocess.run\<close> on the export command with captured
    text output: the process cannot be started (\<open>LaunchError\<close>, with the exception that
    \<^verbatim>\<open>subprocess.run\<close> raises then), or it runs and what it
    printed does not decode as text (\<open>Undecodable\<close>, whatever its return code), or it
    completes with a return code, its output and its error text; in every case it leaves a
    file system behind;
  \<^item> \<open>signal_repr\<close> names a signal the way \<^verbatim>\<open>repr(signal.Signals(n))\<close> does;
  \<^item> \<open>office_tool cmd fs\<close> is the conversion engine, which is taken to write into its output
    directory only: it yields the listing of that directory with the files' contents;
  \<^item> \<open>mkdtemp\<close> is the fresh scratch directory, \<open>None\<close> when it cannot be created;
  \<^item> \<open>copy_fails\<close>, \<open>save_fails\<close> and \<open>makedirs_fails\<close> say which writes the operating system
    refuses; a refused write leaves the file system as it is.
\<close>

record env = clock_env +
  export_tool :: "string list \<Rightarrow> string \<Rightarrow> filesystem \<Rightarrow> proc_result \<times> filesystem"
  signal_repr :: "nat \<Rightarrow> string option"
  office_tool :: "string list \<Rightarrow> filesystem \<Rightarrow> proc_result \<times> (string \<times> file_content) list"
  mkdtemp :: "string option"
  copy_fails :: "string \<Rightarrow> string \<Rightarrow> bool"
  save_fails :: "string \<Rightarrow> bool"
  makedirs_fails :: "string \<Rightarrow> bool"

section \<open>Export Invoker\<close>

text \<open>
  \<^verbatim>\<open>h, m = map(int, s.split(':'))\<close>: the fields are converted in order while the two names
  are filled, so a bad field is reported before a wrong number of fields.
\<close>

definition parse_hm :: "string \<Rightarrow> error + int \<times> int" where
  "parse_hm s =
     (case py_split (CHR '':'') s of
        [] \<Rightarrow> Inl (ValueError ''not enough values to unpack (expected 2, got 0)'')
      | [a] \<Rightarrow>
          (case py_int a of
             Inl e \<Rightarrow> Inl e
           | Inr h \<Rightarrow> Inl (ValueError ''not enough values to unpack (expected 2, got 1)''))
      | [a, b] \<Rightarrow>
          (case py_int a of
             Inl e \<Rightarrow> Inl e
           | Inr h \<Rightarrow>
               (case py_int b of
                  Inl e \<Rightarrow> Inl e
                | Inr m \<Rightarrow> Inr (h, m)))
      | a # b # c # rest \<Rightarrow>
          (case py_int a of
             Inl e \<Rightarrow> Inl e
           | Inr h \<Rightarrow>
               (case py_int b of
                  Inl e \<Rightarrow> Inl e
                | Inr m \<Rightarrow>
                    (case py_int c of
                       Inl e \<Rightarrow> Inl e
                     | Inr x \<Rightarrow> Inl (ValueError ''too many values to unpack (expected 2)'')))))"

text \<open>Lines 105 to 107: the date of the export and the log line of the fallback.\<close>

definition export_date ::
  "processor \<Rightarrow> 'a clock_env_scheme \<Rightarrow> datetime option \<Rightarrow> error + datetime \<times> log_entry list" where
  "export_date p env target_date =
     (case target_date of
        Some d \<Rightarrow> Inr (d, [])
      | None \<Rightarrow>
          (case get_yesterday_date p env of
             Inl e \<Rightarrow> Inl e
           | Inr d \<Rightarrow>
               Inr (d, [(INFO, ''No target date provided, using yesterday: '' @ strftime_ymd d)])))"

text \<open>Lines 110 to 115: the export window on the target date.\<close>

definition export_window :: "processor \<Rightarrow> datetime \<Rightarrow> error + datetime \<times> datetime" where
  "export_window p d =
     (case parse_hm (export_start_time p) of
        Inl e \<Rightarrow> Inl e
      | Inr (start_hour, start_minute) \<Rightarrow>
     (case parse_hm (export_end_time p) of
        Inl e \<Rightarrow> Inl e
      | Inr (end_hour, end_minute) \<Rightarrow>
     (case replace_time d start_hour start_minute of
        Inl e \<Rightarrow> Inl e
      | Inr start_time \<Rightarrow>
     (case replace_time d end_hour end_minute of
        Inl e \<Rightarrow> Inl e
      | Inr end_time \<Rightarrow> Inr (start_time, end_time)))))"

text \<open>Lines 120 to 141: the command that is executed.\<close>

definition export_cmd ::
  "processor \<Rightarrow> 'a clock_env_scheme \<Rightarrow> string \<Rightarrow> datetime \<Rightarrow> datetime \<Rightarrow> string list" where
  "export_cmd p env output_file start_time end_time =
     [os_path_join (venv_path p) [''bin'', ''python''],
      export_script_path p,
      ''-vv'',
      ''excel'',
      ''--apiKeyId'', api_key_id p,
      ''--apiKey'', api_key p,
      ''--orgId'', org_id p,
      ''--resourceName'', ''langer_fill'',
      ''--start'', strftime_iso_z env start_time,
      ''--end'', strftime_iso_z env end_time,
      ''--timezone'', timezone p,
      ''--bucketPeriod'', ''PT5M'',
      ''--bucketMethod'', ''max'',
      ''--includeKeys'', ''.*_raw'',
      ''--output'', output_file,
      ''--tab'', ''RAW'']"

text \<open>
  Lines 144 to 154: \<^verbatim>\<open>list.index\<close> finds the first element equal to the flag, and the
  element after it, if there is one, is overwritten.
\<close>

fun index_of :: "'a \<Rightarrow> 'a list \<Rightarrow> nat option" where
  "index_of x [] = None"
| "index_of x (y # ys) = (if y = x then Some 0 else map_option Suc (index_of x ys))"

definition mask_after :: "string \<Rightarrow> string list \<Rightarrow> string list" where
  "mask_after flag cmd_mask =
     (case index_of flag cmd_mask of
        None \<Rightarrow> cmd_mask
      | Some idx \<Rightarrow>
          if idx + 1 < length cmd_mask then cmd_mask[idx + 1 := ''<redacted>''] else cmd_mask)"

definition mask_cmd :: "string list \<Rightarrow> string list" where
  "mask_cmd cmd = mask_after ''--apiKey'' (mask_after ''--apiKeyId'' cmd)"

text \<open>
  \<^verbatim>\<open>repr\<close> of a string and of a list of strings, as \<^verbatim>\<open>str(CalledProcessError)\<close> prints the
  command: the quote is the double quote only when the string holds a single quote and no
  double quote; backslash, the quote and unprintable characters are escaped.
\<close>

definition py_printable :: "char \<Rightarrow> bool" where
  "py_printable c =
     (let n = (of_char c :: nat) in (32 \<le> n \<and> n < 127) \<or> (161 \<le> n \<and> n \<noteq> 173))"

definition hex_digit :: "nat \<Rightarrow> char" where
  "hex_digit n = ''0123456789abcdef'' ! (n mod 16)"

definition repr_char :: "char \<Rightarrow> char \<Rightarrow> string" where
  "repr_char q c =
     (if c = q \<or> c = CHR 0x5C then [CHR 0x5C, c]
      else if c = CHR 0x09 then [CHR 0x5C, CHR ''t'']
      else if c = CHR 0x0A then [CHR 0x5C, CHR ''n'']
      else if c = CHR 0x0D then [CHR 0x5C, CHR ''r'']
      else if \<not> py_printable c
        then [CHR 0x5C, CHR ''x'', hex_digit (of_char c div 16), hex_digit (of_char c)]
      else [c])"

definition py_repr_str :: "string \<Rightarrow> string" where
  "py_repr_str s =
     (let q = (if CHR 0x27 \<in> set s \<and> CHR 0x22 \<notin> set s then CHR 0x22 else CHR 0x27)
      in q # concat (map (repr_char q) s) @ [q])"

definition py_repr_list :: "string list \<Rightarrow> string" where
  "py_repr_list xs = ''['' @ py_join '', '' (map py_repr_str xs) @ '']''"

text \<open>
  \<^verbatim>\<open>str(e)\<close> for the \<^verbatim>\<open>CalledProcessError\<close> that \<^verbatim>\<open>subprocess.run(cmd, check=True)\<close> raises on
  a return code other than zero. It prints the command that was run.
\<close>

definition called_process_error_str :: "'a env_scheme \<Rightarrow> string list \<Rightarrow> int \<Rightarrow> string" where
  "called_process_error_str env cmd rc =
     ''Command '' @ [CHR 0x27] @ py_repr_list cmd @ [CHR 0x27]
     @ (if rc < 0
        then (case signal_repr env (nat (- rc)) of
                Some name \<Rightarrow> '' died with '' @ name @ ''.''
              | None \<Rightarrow> '' died with unknown signal '' @ str_int (- rc) @ ''.'')
        else '' returned non-zero exit status '' @ str_int rc @ ''.'')"

definition indented :: "level \<Rightarrow> string list \<Rightarrow> log_entry list" where
  "indented lvl ls = map (\<lambda>l. (lvl, ''  '' @ l)) ls"

text \<open>Lines 169 to 184: at most the first five and the last five lines of the output.\<close>

definition log_stdout :: "string \<Rightarrow> log_entry list" where
  "log_stdout out =
     (let stdout_lines = py_split (CHR 0x0A) (py_strip out)
      in if stdout_lines = [] then []
         else if length stdout_lines > 10
           then [(INFO, ''vde.py output first lines:'')]
                @ indented INFO (take 5 stdout_lines)
                @ [(INFO, ''...''), (INFO, ''vde.py output last lines:'')]
                @ indented INFO (drop (length stdout_lines - 5) stdout_lines)
         else (INFO, ''vde.py output:'') # indented INFO stdout_lines)"

text \<open>Lines 193 to 197.\<close>

definition log_stderr :: "string \<Rightarrow> log_entry list" where
  "log_stderr err =
     (if err \<noteq> []
      then (ERROR, ''vde.py stderr output:'') # indented ERROR (py_split (CHR 0x0A) (py_strip err))
      else [])"

text \<open>
  \<^verbatim>\<open>run_vde_export\<close>. The result is what the method returns or raises, the file system the
  export process left behind, and the lines the method logged, in order. Only
  \<^verbatim>\<open>CalledProcessError\<close> is caught: a launch failure, a decoding failure and the
  missing-output error leave the method as they are.
\<close>

definition run_vde_export ::
  "processor \<Rightarrow> env \<Rightarrow> filesystem \<Rightarrow> string \<Rightarrow> datetime option
     \<Rightarrow> (error + string) \<times> filesystem \<times> log_entry list" where
  "run_vde_export p env fs output_file target_date =
     (case export_date p env target_date of
        Inl e \<Rightarrow> (Inl e, fs, [])
      | Inr (d, log0) \<Rightarrow>
     (case export_window p d of
        Inl e \<Rightarrow> (Inl e, fs, log0)
      | Inr (start_time, end_time) \<Rightarrow>
          let log1 = log0 @ [(INFO, ''Exporting data from '' @ str_datetime env start_time
                               @ '' to '' @ str_datetime env end_time
                               @ '' ('' @ export_start_time p @ '' to '' @ export_end_time p
                               @ '')'')];
              cmd = export_cmd p env output_file start_time end_time;
              cmd_mask = mask_cmd cmd;
              log2 = log1 @ [(INFO, ''Running vde.py command: '' @ py_join '' '' cmd_mask)]
          in (case export_tool env cmd (export_script_dir p) fs of
                (LaunchError e, fs1) \<Rightarrow> (Inl e, fs1, log2)
              | (Undecodable, fs1) \<Rightarrow> (Inl UnicodeDecodeError, fs1, log2)
              | (Completed rc out err, fs1) \<Rightarrow>
                  if rc \<noteq> 0
                  then let e = called_process_error_str env cmd rc
                       in (Inl (RuntimeError (''vde.py export failed: '' @ e)), fs1,
                           log2 @ [(ERROR, ''Failed to run vde.py: '' @ e)] @ log_stderr err)
                  else let log3 = log2 @ log_stdout out
                       in if fs1 output_file = None
                          then (Inl (FileNotFoundError
                                       ''vde.py ran but raw_export.xlsx was not created.''),
                                fs1, log3)
                          else (Inr output_file, fs1,
                                log3 @ [(INFO, ''Generated raw data at '' @ output_file)]))))"

section \<open>Worksheet operations of the spreadsheet library\<close>

definition max_row :: "worksheet \<Rightarrow> nat" where
  "max_row ws = (case map (fst \<circ> fst) ws of [] \<Rightarrow> 1 | r # rs \<Rightarrow> foldr max rs r)"

definition max_column :: "worksheet \<Rightarrow> nat" where
  "max_column ws = (case map (snd \<circ> fst) ws of [] \<Rightarrow> 1 | c # cs \<Rightarrow> foldr max cs c)"

text \<open>
  \<^verbatim>\<open>ws.iter_rows()\<close>, which is also \<^verbatim>\<open>ws.rows\<close>: nothing for a sheet without cells, otherwise
  the rows 1 to \<open>max_row\<close>, each with the columns 1 to \<open>max_column\<close>. A cell is named by its
  coordinates; one that does not exist yet is created blank when it is visited.
\<close>

definition iter_rows :: "worksheet \<Rightarrow> (nat \<times> nat) list list" where
  "iter_rows ws =
     (if ws = [] then []
      else map (\<lambda>r. map (\<lambda>c. (r, c)) [1..<Suc (max_column ws)]) [1..<Suc (max_row ws)])"

definition cell_at :: "worksheet \<Rightarrow> nat \<times> nat \<Rightarrow> cell_value option" where
  "cell_at ws rc = (case map_of ws rc of None \<Rightarrow> None | Some v \<Rightarrow> v)"

definition set_value :: "worksheet \<Rightarrow> nat \<times> nat \<Rightarrow> cell_value option \<Rightarrow> worksheet" where
  "set_value ws rc v = AList.update rc v ws"

definition load_workbook :: "filesystem \<Rightarrow> string \<Rightarrow> error + workbook" where
  "load_workbook fs path =
     (case fs path of
        None \<Rightarrow> Inl (FileNotFoundError path)
      | Some (Blob b) \<Rightarrow> Inl InvalidFileException
      | Some (Xlsx wb) \<Rightarrow> Inr wb)"

definition save_workbook :: "env \<Rightarrow> filesystem \<Rightarrow> workbook \<Rightarrow> string \<Rightarrow> error + filesystem" where
  "save_workbook env fs wb path =
     (if save_fails env path then Inl (OSError path) else Inr (fs(path \<mapsto> Xlsx wb)))"

text \<open>\<^verbatim>\<open>shutil.copy(src, dst)\<close> between two file paths.\<close>

definition shutil_copy :: "env \<Rightarrow> filesystem \<Rightarrow> string \<Rightarrow> string \<Rightarrow> error + filesystem" where
  "shutil_copy env fs src dst =
     (case fs src of
        None \<Rightarrow> Inl (FileNotFoundError src)
      | Some content \<Rightarrow>
          if src = dst then Inl SameFileError
          else if copy_fails env src dst then Inl (OSError dst)
          else Inr (fs(dst \<mapsto> content)))"

section \<open>Recalculation Trigger\<close>

text \<open>Line 227: the names in the scratch directory that start with the stem of the file name.\<close>

definition converted_files :: "string \<Rightarrow> (string \<times> file_content) list \<Rightarrow> string list" where
  "converted_files filename listing =
     filter (\<lambda>f. prefix (fst (os_path_splitext filename)) f) (map fst listing)"

definition office_cmd :: "string \<Rightarrow> string \<Rightarrow> string list" where
  "office_cmd temp_dir excel_file =
     [''libreoffice'', ''--headless'', ''--calc'', ''--convert-to'', ''xlsx'',
      ''--outdir'', temp_dir, excel_file]"

text \<open>
  The \<^verbatim>\<open>try\<close> block of \<^verbatim>\<open>_recalculate_with_libreoffice\<close>. The return code of the engine is
  only logged. The first matching file of the listing is copied over the workbook.
\<close>

definition recalculate_body ::
  "env \<Rightarrow> filesystem \<Rightarrow> string \<Rightarrow> (error + unit) \<times> filesystem" where
  "recalculate_body env fs excel_file =
     (case mkdtemp env of
        None \<Rightarrow> (Inl (OSError ''mkdtemp''), fs)
      | Some temp_dir \<Rightarrow>
          let filename = os_path_basename excel_file
          in (case office_tool env (office_cmd temp_dir excel_file) fs of
                (LaunchError e, listing) \<Rightarrow> (Inl e, fs)
              | (Undecodable, listing) \<Rightarrow> (Inl UnicodeDecodeError, fs)
              | (Completed rc out err, listing) \<Rightarrow>
                  (case converted_files filename listing of
                     [] \<Rightarrow> (Inr (), fs)
                   | f # others \<Rightarrow>
                       (case map_of listing f of
                          None \<Rightarrow> (Inl (FileNotFoundError f), fs)
                        | Some content \<Rightarrow>
                            if copy_fails env (os_path_join temp_dir [f]) excel_file
                            then (Inl (OSError excel_file), fs)
                            else (Inr (), fs(excel_file \<mapsto> content))))))"

text \<open>
  \<^verbatim>\<open>_recalculate_with_libreoffice\<close>: the early return when the engine was not found, and the
  handler \<^verbatim>\<open>except Exception\<close>, which logs and returns.
\<close>

definition recalculate_with_libreoffice ::
  "processor \<Rightarrow> env \<Rightarrow> filesystem \<Rightarrow> string \<Rightarrow> (error + unit) \<times> filesystem" where
  "recalculate_with_libreoffice p env fs excel_file =
     (if \<not> libreoffice_available p then (Inr (), fs)
      else (case recalculate_body env fs excel_file of
              (Inl e, fs') \<Rightarrow> (Inr (), fs')
            | (Inr u, fs') \<Rightarrow> (Inr (), fs')))"

section \<open>Workbook Merger\<close>

text \<open>Lines 248 to 258: the date of the new workbook.\<close>

definition merge_target_date ::
  "processor \<Rightarrow> 'a clock_env_scheme \<Rightarrow> string \<Rightarrow> datetime option \<Rightarrow> error + datetime" where
  "merge_target_date p env master_template target_date =
     (case target_date of
        Some d \<Rightarrow> Inr d
      | None \<Rightarrow>
          (case extract_date_from_filename p env master_template of
             Inl e \<Rightarrow> Inl e
           | Inr (Some template_date) \<Rightarrow> plus_one_day template_date
           | Inr None \<Rightarrow> Inr (datetime_now env (gettz env (timezone p)))))"

text \<open>Lines 261 and 262.\<close>

definition dated_workbook_path :: "processor \<Rightarrow> datetime \<Rightarrow> string" where
  "dated_workbook_path p target_date =
     os_path_join (work_dir p) [''3895th_'' @ strftime_mdy target_date @ ''.xlsx'']"

text \<open>Lines 288 to 290: every cell that \<^verbatim>\<open>iter_rows\<close> visits is set to blank.\<close>

definition clear_sheet :: "worksheet \<Rightarrow> worksheet" where
  "clear_sheet import_sheet =
     fold (\<lambda>row ws. fold (\<lambda>cell ws. set_value ws cell None) row ws)
       (iter_rows import_sheet) import_sheet"

text \<open>
  Lines 294 to 298: rows and cells are counted from 1 by \<^verbatim>\<open>enumerate\<close>, and the value of
  each source cell is written at the counted position. The second component is \<open>row_count\<close>.
\<close>

definition copy_rows :: "worksheet \<Rightarrow> worksheet \<Rightarrow> worksheet \<times> nat" where
  "copy_rows raw_sheet import_sheet =
     (fold (\<lambda>(row_idx, row) ws.
              fold (\<lambda>(col_idx, cell) ws. set_value ws (row_idx, col_idx) (cell_at raw_sheet cell))
                (List.enumerate 1 row) ws)
        (List.enumerate 1 (iter_rows raw_sheet)) import_sheet,
      length (iter_rows raw_sheet))"

text \<open>
  Lines 269 to 302 of the \<^verbatim>\<open>try\<close> block of \<^verbatim>\<open>update_master_workbook\<close>. Both workbooks are
  loaded, both sheets are looked up by title, and only then is the sheet object changed;
  the file itself is written by \<^verbatim>\<open>save\<close>.
\<close>

definition merge_and_save ::
  "env \<Rightarrow> filesystem \<Rightarrow> string \<Rightarrow> string \<Rightarrow> error + filesystem" where
  "merge_and_save env fs raw_file new_master_file =
     (case load_workbook fs raw_file of
        Inl e \<Rightarrow> Inl e
      | Inr raw_wb \<Rightarrow>
     (case load_workbook fs new_master_file of
        Inl e \<Rightarrow> Inl e
      | Inr master_wb \<Rightarrow>
     (case map_of raw_wb ''RAW'' of
        None \<Rightarrow>
          Inl (ValueError (''Raw export workbook missing '' @ [CHR 0x27] @ ''RAW'' @ [CHR 0x27]
                           @ '' sheet''))
      | Some raw_sheet \<Rightarrow>
     (case map_of master_wb ''Raw Import'' of
        None \<Rightarrow>
          Inl (ValueError (''Master workbook missing '' @ [CHR 0x27] @ ''Raw Import''
                           @ [CHR 0x27] @ '' sheet''))
      | Some import_sheet \<Rightarrow>
          let cleared = clear_sheet import_sheet;
              (copied, row_count) = copy_rows raw_sheet cleared;
              saved_wb = AList.update ''Raw Import'' copied master_wb
          in save_workbook env fs saved_wb new_master_file))))"

text \<open>The whole \<^verbatim>\<open>try\<close> block: the merge, then the recalculation of the saved file.\<close>

definition merge_body ::
  "processor \<Rightarrow> env \<Rightarrow> filesystem \<Rightarrow> string \<Rightarrow> string \<Rightarrow> (error + string) \<times> filesystem" where
  "merge_body p env fs raw_file new_master_file =
     (case merge_and_save env fs raw_file new_master_file of
        Inl e \<Rightarrow> (Inl e, fs)
      | Inr fs1 \<Rightarrow>
          (case recalculate_with_libreoffice p env fs1 new_master_file of
             (Inl e, fs2) \<Rightarrow> (Inl e, fs2)
           | (Inr u, fs2) \<Rightarrow> (Inr new_master_file, fs2)))"

text \<open>Lines 309 to 319: the handler keeps a copy if it can and raises the same error again.\<close>

definition save_error_state :: "env \<Rightarrow> filesystem \<Rightarrow> string \<Rightarrow> filesystem" where
  "save_error_state env fs new_master_file =
     (if fs new_master_file \<noteq> None
      then (case shutil_copy env fs new_master_file (new_master_file @ ''.error'') of
              Inl e \<Rightarrow> fs
            | Inr fs' \<Rightarrow> fs')
      else fs)"

definition update_master_workbook ::
  "processor \<Rightarrow> env \<Rightarrow> filesystem \<Rightarrow> string \<Rightarrow> string \<Rightarrow> datetime option
     \<Rightarrow> (error + string) \<times> filesystem" where
  "update_master_workbook p env fs raw_file master_template target_date =
     (case merge_target_date p env master_template target_date of
        Inl e \<Rightarrow> (Inl e, fs)
      | Inr d \<Rightarrow>
          let new_master_file = dated_workbook_path p d
          in (case shutil_copy env fs master_template new_master_file of
                Inl e \<Rightarrow> (Inl e, fs)
              | Inr fs0 \<Rightarrow>
                  (case merge_body p env fs0 raw_file new_master_file of
                     (Inr r, fs1) \<Rightarrow> (Inr r, fs1)
                   | (Inl e, fs1) \<Rightarrow> (Inl e, save_error_state env fs1 new_master_file))))"

section \<open>Pipeline Orchestrator\<close>

text \<open>Lines 333 to 345: the date is resolved once.\<close>

definition process_target_date ::
  "processor \<Rightarrow> 'a clock_env_scheme \<Rightarrow> string \<Rightarrow> datetime option \<Rightarrow> error + datetime" where
  "process_target_date p env master_template target_date =
     (case target_date of
        Some d \<Rightarrow> Inr d
      | None \<Rightarrow>
          (case extract_date_from_filename p env master_template of
             Inl e \<Rightarrow> Inl e
           | Inr (Some template_date) \<Rightarrow> plus_one_day template_date
           | Inr None \<Rightarrow> get_yesterday_date p env))"

definition process ::
  "processor \<Rightarrow> env \<Rightarrow> filesystem \<Rightarrow> string \<Rightarrow> datetime option
     \<Rightarrow> (error + string) \<times> filesystem" where
  "process p env fs master_template target_date =
     (if makedirs_fails env (work_dir p) then (Inl (OSError (work_dir p)), fs)
      else (case process_target_date p env master_template target_date of
              Inl e \<Rightarrow> (Inl e, fs)
            | Inr d \<Rightarrow>
                let raw_file = os_path_join (work_dir p) [''raw_export.xlsx'']
                in (case run_vde_export p env fs raw_file (Some d) of
                      (Inl e, fs1, lg) \<Rightarrow> (Inl e, fs1)
                    | (Inr out, fs1, lg) \<Rightarrow>
                        update_master_workbook p env fs1 raw_file master_template (Some d))))"

section \<open>Example configurations\<close>

text \<open>
  A processor as the constructor would build it, an environment in which everything works
  (one known time zone, an export tool that exits with 0 and writes the workbook named after
  \<^verbatim>\<open>--output\<close>, an office engine that produces nothing), a template with stale values
  in its import sheet, and a file system that holds the template.
\<close>

definition example_processor :: processor where
  "example_processor =
     \<lparr>work_dir = ''/data/work'', export_script_path = ''/opt/vde/vde.py'',
      export_script_dir = ''/opt/vde'', api_key_id = ''key-id-123'', api_key = ''SECRET'',
      org_id = ''org-9'', timezone = ''America/New_York'', export_start_time = ''7:00'',
      export_end_time = ''19:00'', libreoffice_available = True,
      venv_path = ''/opt/vde/.venv''\<rparr>"

definition example_raw_workbook :: workbook where
  "example_raw_workbook =
     [(''RAW'', [((1, 1), Some (Text ''time'')), ((1, 2), Some (Text ''fill_raw'')),
                 ((2, 1), Some (Text ''07:00'')), ((2, 2), Some (Number 41))])]"

definition example_env :: env where
  "example_env =
     \<lparr>gettz = (\<lambda>name. if name = ''America/New_York'' then Some (TzFile name) else None),
      wall_clock = (\<lambda>tz. \<lparr>year = 2024, month = 7, day = 3, hour = 6, minute = 30, second = 12,
                            microsecond = 250, tzinfo = tz\<rparr>),
      utcoffset = (\<lambda>z d. - 14400),
      export_tool =
        (\<lambda>cmd cwd fs. (Completed 0 ''done'' [], fs(cmd ! 25 \<mapsto> Xlsx example_raw_workbook))),
      signal_repr = (\<lambda>n. None),
      office_tool = (\<lambda>cmd fs. (Completed 0 [] [], [])),
      mkdtemp = Some ''/tmp/tmpa1b2c3'',
      copy_fails = (\<lambda>src dst. False),
      save_fails = (\<lambda>path. False),
      makedirs_fails = (\<lambda>path. False)\<rparr>"

definition example_template_workbook :: workbook where
  "example_template_workbook =
     [(''Summary'', [((1, 1), Some (Text ''total''))]),
      (''Raw Import'', [((1, 1), Some (Text ''stale'')), ((3, 3), Some (Number 7))])]"

definition example_fs :: filesystem where
  "example_fs = [''/templates/3895th_070124.xlsx'' \<mapsto> Xlsx example_template_workbook]"

text \<open>A processor whose zone name is misspelt, so that \<open>gettz\<close> does not resolve it.\<close>

definition unknown_zone_processor :: processor where
  "unknown_zone_processor = example_processor\<lparr>timezone := ''America/New_Yrok''\<rparr>"

text \<open>
  File systems for the merge alone: one where the raw artifact and the copied template are
  in place, and one whose raw artifact has no sheet titled RAW. An environment that refuses
  the write of the \<^verbatim>\<open>.error\<close> copy, a processor built without the office engine, and the
  target date of the examples.
\<close>

definition example_merge_fs :: filesystem where
  "example_merge_fs =
     [''/data/work/raw_export.xlsx'' \<mapsto> Xlsx example_raw_workbook,
      ''/data/work/3895th_070224.xlsx'' \<mapsto> Xlsx example_template_workbook]"

definition sheetless_raw_fs :: filesystem where
  "sheetless_raw_fs = example_fs(''/data/work/raw_export.xlsx'' \<mapsto> Xlsx [(''Sheet1'', [])])"

definition error_copy_failing_env :: env where
  "error_copy_failing_env =
     example_env\<lparr>copy_fails := (\<lambda>src dst. dst = ''/data/work/3895th_070224.xlsx.error'')\<rparr>"

definition offline_processor :: processor where
  "offline_processor = example_processor\<lparr>libreoffice_available := False\<rparr>"

definition example_date :: datetime where
  "example_date = \<lparr>year = 2024, month = 7, day = 2, hour = 0, minute = 0, second = 0,
                    microsecond = 0, tzinfo = Some (TzFile ''America/New_York'')\<rparr>"

text \<open>
  For the export: a processor whose start time has a seconds field, and environments in
  which the export process cannot be started, exits with status 1, or writes the workbook
  and exits with 0 after printing bytes that do not decode. Then a processor constructed
  with the script path \<^verbatim>\<open>--apiKey\<close>.
\<close>

definition bad_window_processor :: processor where
  "bad_window_processor = example_processor\<lparr>export_start_time := ''07:00:00''\<rparr>"

definition launch_failing_env :: env where
  "launch_failing_env =
     example_env\<lparr>export_tool := (\<lambda>cmd cwd fs. (LaunchError (OSError ''No such file or directory''), fs))\<rparr>"

definition failing_export_env :: env where
  "failing_export_env =
     example_env\<lparr>export_tool := (\<lambda>cmd cwd fs. (Completed 1 [] ''Unauthorized'', fs))\<rparr>"

definition undecodable_output_env :: env where
  "undecodable_output_env =
     example_env\<lparr>export_tool :=
       (\<lambda>cmd cwd fs. (Undecodable, fs(cmd ! 25 \<mapsto> Xlsx example_raw_workbook)))\<rparr>"

definition renamed_script_processor :: processor where
  "renamed_script_processor =
     init_processor ''/data/work'' ''--apiKey'' ''key-id-123'' ''SECRET'' ''org-9''
       ''America/New_York'' ''7:00'' ''19:00'' True"

section \<open>Facts about the Python values\<close>

lemma digit_not_space: "is_digit c \<Longrightarrow> \<not> int_isspace c"
  by (auto simp: is_digit_def int_isspace_def)

lemma digit_not_sign: "is_digit c \<Longrightarrow> c \<noteq> CHR ''-'' \<and> c \<noteq> CHR ''+'' \<and> c \<noteq> CHR ''_''"
  by (auto simp: is_digit_def)

lemma digit_val_less: "is_digit c \<Longrightarrow> digit_val c < 10"
  by (auto simp: is_digit_def digit_val_def)

lemma py_int_two_digits:
  assumes "is_digit a" and "is_digit b"
  shows "py_int [a, b] = Inr (int (10 * digit_val a + digit_val b))"
proof -
  have "rev (dropWhile int_isspace (rev (dropWhile int_isspace [a, b]))) = [a, b]"
    using assms by (simp add: digit_not_space)
  moreover have "py_digits [a, b] = Some (10 * digit_val a + digit_val b)"
    using assms by (simp add: py_digits_def digit_not_sign)
  ultimately show ?thesis
    using assms by (simp add: py_int_def digit_not_sign)
qed

lemma pattern_at_Some_iff:
  "pattern_at s = Some ds \<longleftrightarrow>
     (\<exists>post. s = ''3895th_'' @ ds @ ''.xlsx'' @ post \<and> length ds = 6 \<and> list_all is_digit ds)"
proof
  assume h: "pattern_at s = Some ds"
  then have p1: "prefix ''3895th_'' s" and l: "length (take 6 (drop 7 s)) = 6"
    and d: "list_all is_digit (take 6 (drop 7 s))" and p2: "prefix ''.xlsx'' (drop 6 (drop 7 s))"
    and e: "ds = take 6 (drop 7 s)"
    by (auto simp: pattern_at_def Let_def split: if_splits)
  from p1 obtain r where r: "s = ''3895th_'' @ r" by (auto simp: prefix_def)
  from p2 obtain post where post: "drop 6 (drop 7 s) = ''.xlsx'' @ post" by (auto simp: prefix_def)
  have "r = take 6 r @ drop 6 r" by simp
  with r post e have "s = ''3895th_'' @ ds @ ''.xlsx'' @ post" by simp
  with l d e show "\<exists>post. s = ''3895th_'' @ ds @ ''.xlsx'' @ post \<and> length ds = 6 \<and> list_all is_digit ds"
    by blast
next
  assume "\<exists>post. s = ''3895th_'' @ ds @ ''.xlsx'' @ post \<and> length ds = 6 \<and> list_all is_digit ds"
  then show "pattern_at s = Some ds"
    by (auto simp: pattern_at_def Let_def)
qed

lemma re_search_Some:
  "re_search s = Some ds \<Longrightarrow>
     \<exists>pre post. s = pre @ ''3895th_'' @ ds @ ''.xlsx'' @ post \<and> length ds = 6 \<and> list_all is_digit ds"
proof (induction s)
  case Nil
  then show ?case by (simp add: pattern_at_def)
next
  case (Cons c cs)
  show ?case
  proof (cases "pattern_at (c # cs)")
    case None
    with Cons.prems have "re_search cs = Some ds" by simp
    from Cons.IH[OF this] obtain pre post where
      "cs = pre @ ''3895th_'' @ ds @ ''.xlsx'' @ post" "length ds = 6" "list_all is_digit ds" by blast
    then have "c # cs = (c # pre) @ ''3895th_'' @ ds @ ''.xlsx'' @ post \<and> length ds = 6 \<and> list_all is_digit ds"
      by simp
    then show ?thesis by blast
  next
    case (Some x)
    with Cons.prems have "pattern_at (c # cs) = Some ds" by simp
    then obtain post where "c # cs = [] @ ''3895th_'' @ ds @ ''.xlsx'' @ post \<and> length ds = 6 \<and> list_all is_digit ds"
      unfolding pattern_at_Some_iff by auto
    then show ?thesis by blast
  qed
qed

lemma re_search_None:
  "re_search s = None \<Longrightarrow> s = pre @ ''3895th_'' @ ds @ ''.xlsx'' @ post \<Longrightarrow> length ds = 6
     \<Longrightarrow> \<not> list_all is_digit ds"
proof (induction s arbitrary: pre)
  case Nil
  then show ?case by simp
next
  case (Cons c cs)
  from Cons.prems(1) have n: "pattern_at (c # cs) = None" and r: "re_search cs = None"
    by (auto split: option.splits)
  show ?case
  proof (cases pre)
    case Nil
    show ?thesis
    proof
      assume "list_all is_digit ds"
      with Cons.prems Nil have "pattern_at (c # cs) = Some ds"
        unfolding pattern_at_Some_iff by auto
      with n show False by simp
    qed
  next
    case (Cons a pre')
    with Cons.prems have "cs = pre' @ ''3895th_'' @ ds @ ''.xlsx'' @ post" by simp
    from Cons.IH[OF r this Cons.prems(3)] show ?thesis .
  qed
qed

lemma pad2_unfold: "pad2 n = [digit_char (n div 10), digit_char n]"
  by (simp add: pad2_def numeral_2_eq_2)

lemma pad4_unfold:
  "pad4 n = [digit_char (n div 10 div 10 div 10), digit_char (n div 10 div 10),
             digit_char (n div 10), digit_char n]"
proof -
  have "(4::nat) = Suc (Suc (Suc (Suc 0)))" by simp
  then show ?thesis
    unfolding pad4_def by (simp only: dec_digits.simps append.simps)
qed

lemma strftime_mdy_070224:
  "strftime_mdy \<lparr>year = 2024, month = 7, day = 2, hour = 0, minute = 0, second = 0,
       microsecond = 0, tzinfo = tz\<rparr> = ''070224''"
  by (simp add: strftime_mdy_def pad2_unfold digit_char_def)

text \<open>The example processor is what the constructor builds with the default times.\<close>

lemma example_processor_init:
  "example_processor =
     init_processor ''/data/work'' ''/opt/vde/vde.py'' ''key-id-123'' ''SECRET'' ''org-9''
       ''America/New_York'' ''7:00'' ''19:00'' True"
  by (simp add: example_processor_def init_processor_def os_path_dirname_def os_path_join_def
      join2_def)

section \<open>Date Resolver: results\<close>

lemma extract_date_of_match:
  assumes "re_search (os_path_basename filename) = Some ds"
  shows "extract_date_from_filename p env filename =
           (case mk_datetime (int (10 * digit_val (ds ! 4) + digit_val (ds ! 5)) + 2000)
                   (int (10 * digit_val (ds ! 0) + digit_val (ds ! 1)))
                   (int (10 * digit_val (ds ! 2) + digit_val (ds ! 3)))
                   (gettz env (timezone p)) of
              Inl e \<Rightarrow> Inr None
            | Inr d \<Rightarrow> Inr (Some d))"
proof -
  from re_search_Some[OF assms] have len: "length ds = 6" and dig: "list_all is_digit ds"
    by auto
  from len obtain a b c d e f where ds: "ds = [a, b, c, d, e, f]"
    by (auto simp: length_Suc_conv eval_nat_numeral)
  with dig have "is_digit a" "is_digit b" "is_digit c" "is_digit d" "is_digit e" "is_digit f"
    by simp_all
  then have "py_int (take 2 ds) = Inr (int (10 * digit_val a + digit_val b))"
    and "py_int (take 2 (drop 2 ds)) = Inr (int (10 * digit_val c + digit_val d))"
    and "py_int (take 2 (drop 4 ds)) = Inr (int (10 * digit_val e + digit_val f))"
    by (simp_all add: ds py_int_two_digits eval_nat_numeral)
  then show ?thesis
    using assms
    by (simp add: extract_date_from_filename_def extract_date_body_def ds split: sum.splits)
qed

lemma extract_date_no_match:
  assumes "re_search (os_path_basename filename) = None"
  shows "extract_date_from_filename p env filename = Inr None"
  using assms by (simp add: extract_date_from_filename_def extract_date_body_def)

lemma extract_date_070124:
  assumes "os_path_basename filename = ''3895th_070124.xlsx''"
  shows "extract_date_from_filename p env filename
       = Inr (Some \<lparr>year = 2024, month = 7, day = 1, hour = 0, minute = 0, second = 0,
                     microsecond = 0, tzinfo = gettz env (timezone p)\<rparr>)"
  by (simp add: extract_date_from_filename_def extract_date_body_def assms
        pattern_at_def is_digit_def py_int_def int_isspace_def py_digits_def
        digit_val_def mk_datetime_def days_in_month_def is_leap_def)

lemma extract_date_notes:
  "extract_date_from_filename p env ''notes.xlsx'' = Inr None"
  by (rule extract_date_no_match) (simp add: os_path_basename_def pattern_at_def)

text \<open>
  The pattern is searched for, not matched against the whole base name: a name that merely
  contains it yields a date as well.
\<close>

lemma extract_date_searches:
  "extract_date_from_filename p env ''/old/copy_3895th_070124.xlsx.bak''
     = Inr (Some \<lparr>year = 2024, month = 7, day = 1, hour = 0, minute = 0, second = 0,
                   microsecond = 0, tzinfo = gettz env (timezone p)\<rparr>)"
proof -
  have "re_search (os_path_basename ''/old/copy_3895th_070124.xlsx.bak'') = Some ''070124''"
    by (simp add: os_path_basename_def pattern_at_def is_digit_def)
  from extract_date_of_match[OF this, of p env] show ?thesis
    by (simp add: digit_val_def mk_datetime_def days_in_month_def is_leap_def)
qed

text \<open>
  Claim C8. \<^verbatim>\<open>_extract_date_from_filename\<close> never raises: for every file name it returns a
  value. It returns \<^verbatim>\<open>None\<close> when the pattern does not match, that is, when the base name
  holds no text of the form \<^verbatim>\<open>3895th_\<close>, six digits, \<^verbatim>\<open>.xlsx\<close>, and when the six digits of
  the leftmost such text are not a valid month and day. For \<^verbatim>\<open>3895th_070124.xlsx\<close> it
  returns 1 July 2024 with the configured zone's \<^verbatim>\<open>tzinfo\<close>, and for \<^verbatim>\<open>notes.xlsx\<close> it
  returns \<^verbatim>\<open>None\<close>.
\<close>

theorem extract_date_never_raises:
  "(\<exists>r. extract_date_from_filename p env filename = Inr r)
   \<and> ((\<nexists>pre ds post. os_path_basename filename = pre @ ''3895th_'' @ ds @ ''.xlsx'' @ post
          \<and> length ds = 6 \<and> list_all is_digit ds)
        \<longrightarrow> extract_date_from_filename p env filename = Inr None)
   \<and> (\<forall>ds. re_search (os_path_basename filename) = Some ds
          \<and> \<not> (let mm = 10 * digit_val (ds ! 0) + digit_val (ds ! 1);
                    dd = 10 * digit_val (ds ! 2) + digit_val (ds ! 3);
                    yy = 10 * digit_val (ds ! 4) + digit_val (ds ! 5)
                in 1 \<le> mm \<and> mm \<le> 12 \<and> 1 \<le> dd \<and> dd \<le> days_in_month (2000 + yy) mm)
        \<longrightarrow> extract_date_from_filename p env filename = Inr None)
   \<and> extract_date_from_filename p env ''3895th_070124.xlsx''
       = Inr (Some \<lparr>year = 2024, month = 7, day = 1, hour = 0, minute = 0, second = 0,
                     microsecond = 0, tzinfo = gettz env (timezone p)\<rparr>)
   \<and> extract_date_from_filename p env ''notes.xlsx'' = Inr None"
proof (intro conjI)
  show "\<exists>r. extract_date_from_filename p env filename = Inr r"
    by (simp add: extract_date_from_filename_def split: sum.splits)
next
  show "(\<nexists>pre ds post. os_path_basename filename = pre @ ''3895th_'' @ ds @ ''.xlsx'' @ post
          \<and> length ds = 6 \<and> list_all is_digit ds)
        \<longrightarrow> extract_date_from_filename p env filename = Inr None"
  proof
    assume no: "\<nexists>pre ds post. os_path_basename filename = pre @ ''3895th_'' @ ds @ ''.xlsx'' @ post
          \<and> length ds = 6 \<and> list_all is_digit ds"
    have "re_search (os_path_basename filename) = None"
    proof (cases "re_search (os_path_basename filename)")
      case None
      then show ?thesis .
    next
      case (Some ds)
      from re_search_Some[OF this] no show ?thesis by blast
    qed
    then show "extract_date_from_filename p env filename = Inr None"
      by (rule extract_date_no_match)
  qed
next
  show "\<forall>ds. re_search (os_path_basename filename) = Some ds
          \<and> \<not> (let mm = 10 * digit_val (ds ! 0) + digit_val (ds ! 1);
                    dd = 10 * digit_val (ds ! 2) + digit_val (ds ! 3);
                    yy = 10 * digit_val (ds ! 4) + digit_val (ds ! 5)
                in 1 \<le> mm \<and> mm \<le> 12 \<and> 1 \<le> dd \<and> dd \<le> days_in_month (2000 + yy) mm)
        \<longrightarrow> extract_date_from_filename p env filename = Inr None"
  proof (intro allI impI, elim conjE)
    fix ds
    assume m: "re_search (os_path_basename filename) = Some ds"
      and bad: "\<not> (let mm = 10 * digit_val (ds ! 0) + digit_val (ds ! 1);
                    dd = 10 * digit_val (ds ! 2) + digit_val (ds ! 3);
                    yy = 10 * digit_val (ds ! 4) + digit_val (ds ! 5)
                in 1 \<le> mm \<and> mm \<le> 12 \<and> 1 \<le> dd \<and> dd \<le> days_in_month (2000 + yy) mm)"
    have "nat (int (10 * digit_val (ds ! 4) + digit_val (ds ! 5)) + 2000)
            = 2000 + (10 * digit_val (ds ! 4) + digit_val (ds ! 5))"
      by simp
    with bad have "\<exists>e. mk_datetime (int (10 * digit_val (ds ! 4) + digit_val (ds ! 5)) + 2000)
                   (int (10 * digit_val (ds ! 0) + digit_val (ds ! 1)))
                   (int (10 * digit_val (ds ! 2) + digit_val (ds ! 3)))
                   (gettz env (timezone p)) = Inl e"
      by (auto simp: mk_datetime_def Let_def simp del: of_nat_add of_nat_mult)
    then show "extract_date_from_filename p env filename = Inr None"
      by (auto simp: extract_date_of_match[OF m])
  qed
next
  show "extract_date_from_filename p env ''3895th_070124.xlsx''
       = Inr (Some \<lparr>year = 2024, month = 7, day = 1, hour = 0, minute = 0, second = 0,
                     microsecond = 0, tzinfo = gettz env (timezone p)\<rparr>)"
    by (rule extract_date_070124) (simp add: os_path_basename_def)
next
  show "extract_date_from_filename p env ''notes.xlsx'' = Inr None"
    by (rule extract_date_notes)
qed

text \<open>
  The theorem at a name that does not match and at a name whose digits are 30 February.
\<close>

theorem extract_date_never_raises_witness:
  "re_search (os_path_basename ''/templates/notes.xlsx'') = None
   \<and> extract_date_from_filename example_processor example_env ''/templates/notes.xlsx'' = Inr None
   \<and> re_search (os_path_basename ''/templates/3895th_023024.xlsx'') = Some ''023024''
   \<and> extract_date_from_filename example_processor example_env ''/templates/3895th_023024.xlsx''
       = Inr None"
proof -
  have n: "re_search (os_path_basename ''/templates/notes.xlsx'') = None"
    by (simp add: os_path_basename_def pattern_at_def)
  then have "\<nexists>pre ds post. os_path_basename ''/templates/notes.xlsx''
                 = pre @ ''3895th_'' @ ds @ ''.xlsx'' @ post \<and> length ds = 6 \<and> list_all is_digit ds"
    using re_search_None by blast
  with extract_date_never_raises[of example_processor example_env "''/templates/notes.xlsx''"]
  have a: "extract_date_from_filename example_processor example_env ''/templates/notes.xlsx''
             = Inr None"
    by blast
  have m: "re_search (os_path_basename ''/templates/3895th_023024.xlsx'') = Some ''023024''"
    by (simp add: os_path_basename_def pattern_at_def is_digit_def)
  have bad: "\<not> (let mm = 10 * digit_val (''023024'' ! 0) + digit_val (''023024'' ! 1);
                    dd = 10 * digit_val (''023024'' ! 2) + digit_val (''023024'' ! 3);
                    yy = 10 * digit_val (''023024'' ! 4) + digit_val (''023024'' ! 5)
                in 1 \<le> mm \<and> mm \<le> 12 \<and> 1 \<le> dd \<and> dd \<le> days_in_month (2000 + yy) mm)"
    by (simp add: digit_val_def days_in_month_def is_leap_def)
  from extract_date_never_raises[of example_processor example_env
      "''/templates/3895th_023024.xlsx''"] m bad
  have b: "extract_date_from_filename example_processor example_env
             ''/templates/3895th_023024.xlsx'' = Inr None"
    by blast
  from n a m b show ?thesis by blast
qed

lemma extract_date_tzinfo:
  "extract_date_from_filename p env filename = Inr (Some d) \<Longrightarrow> tzinfo d = gettz env (timezone p)"
  by (auto simp: extract_date_from_filename_def extract_date_body_def mk_datetime_def
      split: sum.splits option.splits if_splits)

lemma plus_one_day_tzinfo: "plus_one_day d = Inr d' \<Longrightarrow> tzinfo d' = tzinfo d"
  by (auto simp: plus_one_day_def split: if_splits)

lemma minus_one_day_tzinfo: "minus_one_day d = Inr d' \<Longrightarrow> tzinfo d' = tzinfo d"
  by (auto simp: minus_one_day_def split: if_splits)

lemma get_yesterday_tzinfo:
  "get_yesterday_date p env = Inr d \<Longrightarrow> tzinfo d = gettz env (timezone p)"
  by (auto simp: get_yesterday_date_def datetime_now_def dest: minus_one_day_tzinfo)

lemma merge_target_date_tzinfo:
  "merge_target_date p env template None = Inr d \<Longrightarrow> tzinfo d = gettz env (timezone p)"
  by (auto simp: merge_target_date_def datetime_now_def
      dest!: plus_one_day_tzinfo extract_date_tzinfo split: sum.splits option.splits)

lemma process_target_date_tzinfo:
  "process_target_date p env template None = Inr d \<Longrightarrow> tzinfo d = gettz env (timezone p)"
  by (auto simp: process_target_date_def
      dest!: plus_one_day_tzinfo extract_date_tzinfo get_yesterday_tzinfo
      split: sum.splits option.splits)

text \<open>
  Claim C9, as amended. Whenever \<open>gettz\<close> resolves the configured zone name, every date the
  system produces itself is aware and carries the resolved \<^verbatim>\<open>tzinfo\<close>: the date extracted
  from a file name, the yesterday fallback, the date the merger derives (from the template
  or from the current time), and the date the orchestrator derives.
\<close>

theorem business_dates_aware_when_zone_resolves:
  assumes "gettz env (timezone p) = Some z"
  shows "(extract_date_from_filename p env filename = Inr (Some d1) \<longrightarrow> aware d1 \<and> tzinfo d1 = Some z)
       \<and> (get_yesterday_date p env = Inr d2 \<longrightarrow> aware d2 \<and> tzinfo d2 = Some z)
       \<and> (merge_target_date p env template None = Inr d3 \<longrightarrow> aware d3 \<and> tzinfo d3 = Some z)
       \<and> (process_target_date p env template None = Inr d4 \<longrightarrow> aware d4 \<and> tzinfo d4 = Some z)
       \<and> aware (datetime_now env (gettz env (timezone p)))"
  using assms
  by (auto simp: aware_def datetime_now_def dest: extract_date_tzinfo get_yesterday_tzinfo
      merge_target_date_tzinfo process_target_date_tzinfo)

theorem business_dates_aware_witness:
  "gettz example_env (timezone example_processor) = Some (TzFile ''America/New_York'')
   \<and> extract_date_from_filename example_processor example_env ''3895th_070124.xlsx''
       = Inr (Some \<lparr>year = 2024, month = 7, day = 1, hour = 0, minute = 0, second = 0,
                     microsecond = 0, tzinfo = Some (TzFile ''America/New_York'')\<rparr>)
   \<and> aware \<lparr>year = 2024, month = 7, day = 1, hour = 0, minute = 0, second = 0,
                     microsecond = 0, tzinfo = Some (TzFile ''America/New_York'')\<rparr>"
proof -
  have tz: "gettz example_env (timezone example_processor) = Some (TzFile ''America/New_York'')"
    by (simp add: example_env_def example_processor_def)
  have x: "extract_date_from_filename example_processor example_env ''3895th_070124.xlsx''
       = Inr (Some \<lparr>year = 2024, month = 7, day = 1, hour = 0, minute = 0, second = 0,
                     microsecond = 0, tzinfo = Some (TzFile ''America/New_York'')\<rparr>)"
    by (simp add: extract_date_from_filename_def extract_date_body_def os_path_basename_def
        pattern_at_def is_digit_def py_int_def int_isspace_def py_digits_def
        digit_val_def mk_datetime_def days_in_month_def is_leap_def tz)
  from business_dates_aware_when_zone_resolves[OF tz, of "''3895th_070124.xlsx''"] x
  show ?thesis using tz by blast
qed

text \<open>
  Claim C9 as stated fails for a zone name that \<open>gettz\<close> does not resolve: the extracted
  date, the yesterday fallback and the merger's current-date fallback are all naive.
\<close>

theorem naive_business_date_counterexample:
  "extract_date_from_filename unknown_zone_processor example_env ''3895th_070124.xlsx''
     = Inr (Some \<lparr>year = 2024, month = 7, day = 1, hour = 0, minute = 0, second = 0,
                   microsecond = 0, tzinfo = None\<rparr>)
   \<and> get_yesterday_date unknown_zone_processor example_env
     = Inr \<lparr>year = 2024, month = 7, day = 2, hour = 6, minute = 30, second = 12,
            microsecond = 250, tzinfo = None\<rparr>
   \<and> merge_target_date unknown_zone_processor example_env ''notes.xlsx'' None
     = Inr \<lparr>year = 2024, month = 7, day = 3, hour = 6, minute = 30, second = 12,
            microsecond = 250, tzinfo = None\<rparr>
   \<and> \<not> aware \<lparr>year = 2024, month = 7, day = 1, hour = 0, minute = 0, second = 0,
               microsecond = 0, tzinfo = None\<rparr>
   \<and> \<not> aware \<lparr>year = 2024, month = 7, day = 2, hour = 6, minute = 30, second = 12,
            microsecond = 250, tzinfo = None\<rparr>
   \<and> \<not> aware \<lparr>year = 2024, month = 7, day = 3, hour = 6, minute = 30, second = 12,
            microsecond = 250, tzinfo = None\<rparr>"
proof -
  have tz: "gettz example_env (timezone unknown_zone_processor) = None"
    by (simp add: example_env_def unknown_zone_processor_def example_processor_def)
  have wc: "wall_clock example_env None
     = \<lparr>year = 2024, month = 7, day = 3, hour = 6, minute = 30, second = 12,
        microsecond = 250, tzinfo = None\<rparr>"
    by (simp add: example_env_def)
  have x: "extract_date_from_filename unknown_zone_processor example_env ''3895th_070124.xlsx''
     = Inr (Some \<lparr>year = 2024, month = 7, day = 1, hour = 0, minute = 0, second = 0,
                   microsecond = 0, tzinfo = None\<rparr>)"
    using extract_date_070124[of "''3895th_070124.xlsx''" unknown_zone_processor example_env] tz
    by (simp add: os_path_basename_def)
  have n: "extract_date_from_filename unknown_zone_processor example_env ''notes.xlsx'' = Inr None"
    by (rule extract_date_notes)
  have y: "get_yesterday_date unknown_zone_processor example_env
     = Inr \<lparr>year = 2024, month = 7, day = 2, hour = 6, minute = 30, second = 12,
            microsecond = 250, tzinfo = None\<rparr>"
    by (simp add: get_yesterday_date_def tz datetime_now_def wc minus_one_day_def)
  have m: "merge_target_date unknown_zone_processor example_env ''notes.xlsx'' None
     = Inr \<lparr>year = 2024, month = 7, day = 3, hour = 6, minute = 30, second = 12,
            microsecond = 250, tzinfo = None\<rparr>"
    by (simp add: merge_target_date_def n tz datetime_now_def wc)
  show ?thesis
    using x y m by (simp add: aware_def)
qed

section \<open>Steps of the pipeline\<close>

lemma merge_body_result:
  "merge_body p env fs raw_file new_master_file = (Inr r, fs') \<Longrightarrow> r = new_master_file"
  by (simp add: merge_body_def split: sum.splits prod.splits)

lemma update_master_workbook_result:
  assumes "update_master_workbook p env fs raw_file master_template (Some d) = (Inr r, fs')"
  shows "r = dated_workbook_path p d"
proof -
  from assms obtain fs0 where
    "merge_body p env fs0 raw_file (dated_workbook_path p d) = (Inr r, fs')"
    by (simp add: update_master_workbook_def merge_target_date_def Let_def
        split: sum.splits prod.splits)
  then show ?thesis by (rule merge_body_result)
qed

lemma run_vde_export_unfold:
  assumes "export_date p env target_date = Inr (d, lg0)"
    and "export_window p d = Inr (s, e)"
    and "export_tool env (export_cmd p env output_file s e) (export_script_dir p) fs = (res, fs1)"
  shows "fst (run_vde_export p env fs output_file target_date) =
           (case res of
              LaunchError e \<Rightarrow> Inl e
            | Undecodable \<Rightarrow> Inl UnicodeDecodeError
            | Completed rc out err \<Rightarrow>
                if rc \<noteq> 0
                then Inl (RuntimeError (''vde.py export failed: ''
                       @ called_process_error_str env (export_cmd p env output_file s e) rc))
                else if fs1 output_file = None
                then Inl (FileNotFoundError ''vde.py ran but raw_export.xlsx was not created.'')
                else Inr output_file)
         \<and> fst (snd (run_vde_export p env fs output_file target_date)) = fs1"
  using assms
  by (simp add: run_vde_export_def Let_def split: proc_result.splits)

lemma run_vde_export_result:
  assumes "run_vde_export p env fs output_file target_date = (Inr out, fs1, lg)"
  shows "out = output_file \<and> fs1 output_file \<noteq> None"
proof -
  from assms obtain d lg0 where d: "export_date p env target_date = Inr (d, lg0)"
    by (cases "export_date p env target_date") (auto simp: run_vde_export_def)
  from assms d obtain s e where w: "export_window p d = Inr (s, e)"
    by (cases "export_window p d") (auto simp: run_vde_export_def)
  obtain res fs2 where
    t: "export_tool env (export_cmd p env output_file s e) (export_script_dir p) fs = (res, fs2)"
    by (cases "export_tool env (export_cmd p env output_file s e) (export_script_dir p) fs")
  from run_vde_export_unfold[OF d w t] assms show ?thesis
    by (auto split: proc_result.splits if_splits)
qed

lemma merge_and_save_unfold:
  assumes "load_workbook fs raw_file = Inr raw_wb"
    and "load_workbook fs new_master_file = Inr master_wb"
    and "map_of raw_wb ''RAW'' = Some raw_sheet"
    and "map_of master_wb ''Raw Import'' = Some import_sheet"
  shows "merge_and_save env fs raw_file new_master_file =
           save_workbook env fs
             (AList.update ''Raw Import'' (fst (copy_rows raw_sheet (clear_sheet import_sheet)))
                master_wb)
             new_master_file"
  using assms by (simp add: merge_and_save_def Let_def case_prod_beta)

lemma parse_hm_7_00: "parse_hm ''7:00'' = Inr (7, 0)"
  by (simp add: parse_hm_def py_int_def int_isspace_def py_digits_def is_digit_def
      digit_val_def)

lemma parse_hm_19_00: "parse_hm ''19:00'' = Inr (19, 0)"
  by (simp add: parse_hm_def py_int_def int_isspace_def py_digits_def is_digit_def
      digit_val_def)

lemma example_window:
  "export_window example_processor d =
     Inr (d\<lparr>hour := 7, minute := 0, second := 0, microsecond := 0\<rparr>,
          d\<lparr>hour := 19, minute := 0, second := 0, microsecond := 0\<rparr>)"
  by (simp add: export_window_def example_processor_def parse_hm_7_00 parse_hm_19_00
      replace_time_def)

lemma export_cmd_output: "export_cmd p env output_file s e ! 25 = output_file"
  by (simp add: export_cmd_def)

lemma example_export:
  "fst (run_vde_export example_processor example_env fs output_file (Some d)) = Inr output_file
   \<and> fst (snd (run_vde_export example_processor example_env fs output_file (Some d)))
       = fs(output_file \<mapsto> Xlsx example_raw_workbook)"
proof -
  have d: "export_date example_processor example_env (Some d) = Inr (d, [])"
    by (simp add: export_date_def)
  have t: "export_tool example_env
             (export_cmd example_processor example_env output_file
                (d\<lparr>hour := 7, minute := 0, second := 0, microsecond := 0\<rparr>)
                (d\<lparr>hour := 19, minute := 0, second := 0, microsecond := 0\<rparr>))
             (export_script_dir example_processor) fs
           = (Completed 0 ''done'' [], fs(output_file \<mapsto> Xlsx example_raw_workbook))"
    by (simp add: example_env_def export_cmd_output)
  from run_vde_export_unfold[OF d example_window t] show ?thesis by simp
qed

lemma recalculate_returns:
  "fst (recalculate_with_libreoffice p env fs excel_file) = Inr ()"
  by (simp add: recalculate_with_libreoffice_def split: prod.splits sum.splits)

lemma merge_body_after_save:
  assumes "merge_and_save env fs raw_file new_master_file = Inr fs1"
  shows "merge_body p env fs raw_file new_master_file
           = (Inr new_master_file,
              snd (recalculate_with_libreoffice p env fs1 new_master_file))"
  using assms recalculate_returns[of p env fs1 new_master_file]
  by (cases "recalculate_with_libreoffice p env fs1 new_master_file")
     (simp add: merge_body_def)

lemma update_master_workbook_unfold:
  assumes "merge_target_date p env master_template target_date = Inr d"
    and "shutil_copy env fs master_template (dated_workbook_path p d) = Inr fs0"
  shows "update_master_workbook p env fs raw_file master_template target_date =
           (case merge_body p env fs0 raw_file (dated_workbook_path p d) of
              (Inr r, fs1) \<Rightarrow> (Inr r, fs1)
            | (Inl e, fs1) \<Rightarrow> (Inl e, save_error_state env fs1 (dated_workbook_path p d)))"
  using assms by (simp add: update_master_workbook_def Let_def)

section \<open>Workbook Merger: results\<close>

lemma map_of_fold_update:
  "map_of (fold (\<lambda>k ws. AList.update k (f k) ws) ks ws) k =
     (if k \<in> set ks then Some (f k) else map_of ws k)"
  by (induction ks arbitrary: ws) (auto simp: update_conv')

lemma fold_concat: "fold f (concat xss) ws = fold (\<lambda>xs ws. fold f xs ws) xss ws"
  by (induction xss arbitrary: ws) simp_all

lemma enumerate_map_upt:
  "List.enumerate (Suc 0) (map f [Suc 0..<Suc n]) = map (\<lambda>i. (i, f i)) [Suc 0..<Suc n]"
proof -
  have "List.enumerate (Suc 0) (map f [Suc 0..<Suc n])
          = zip [Suc 0..<Suc n] (map f [Suc 0..<Suc n])"
    by (simp add: enumerate_eq_zip del: upt_Suc)
  also have "\<dots> = map (\<lambda>i. (i, f i)) [Suc 0..<Suc n]"
    by (simp add: zip_map2 zip_same_conv_map del: upt_Suc)
  finally show ?thesis .
qed

lemma clear_sheet_fold:
  "clear_sheet ws = fold (\<lambda>k ws. AList.update k None ws) (concat (iter_rows ws)) ws"
  by (simp add: clear_sheet_def set_value_def fold_concat)

lemma cell_at_clear_sheet:
  "cell_at (clear_sheet ws) rc = (if rc \<in> set (concat (iter_rows ws)) then None else cell_at ws rc)"
  unfolding clear_sheet_fold cell_at_def
  by (simp add: map_of_fold_update[where f = "\<lambda>k. None"])

lemma copy_row_fold:
  "fold (\<lambda>(col_idx, cell) ws. set_value ws (r, col_idx) (cell_at raw cell))
        (List.enumerate (Suc 0) (map (\<lambda>c. (r, c)) [Suc 0..<Suc n]))
   = fold (\<lambda>k ws. AList.update k (cell_at raw k) ws) (map (\<lambda>c. (r, c)) [Suc 0..<Suc n])"
  by (simp add: enumerate_map_upt fold_map comp_def set_value_def del: upt_Suc)

lemma copy_rows_fold:
  "fst (copy_rows raw ws) =
     fold (\<lambda>k ws. AList.update k (cell_at raw k) ws) (concat (iter_rows raw)) ws"
proof (cases "raw = []")
  case True
  then show ?thesis by (simp add: copy_rows_def iter_rows_def)
next
  case False
  let ?n = "max_column raw"
  let ?row = "\<lambda>r. map (\<lambda>c. (r, c)) [1..<Suc ?n]"
  have rows: "iter_rows raw = map ?row [1..<Suc (max_row raw)]"
    using False by (simp add: iter_rows_def)
  have "fst (copy_rows raw ws) =
          fold (\<lambda>(row_idx, row) ws.
              fold (\<lambda>(col_idx, cell) ws. set_value ws (row_idx, col_idx) (cell_at raw cell))
                (List.enumerate 1 row) ws)
            (map (\<lambda>r. (r, ?row r)) [1..<Suc (max_row raw)]) ws"
    by (simp add: copy_rows_def rows enumerate_map_upt del: upt_Suc)
  also have "\<dots> = fold (\<lambda>r ws. fold (\<lambda>k ws. AList.update k (cell_at raw k) ws) (?row r) ws)
                        [1..<Suc (max_row raw)] ws"
    by (simp add: fold_map comp_def copy_row_fold del: upt_Suc)
  also have "\<dots> = fold (\<lambda>k ws. AList.update k (cell_at raw k) ws) (concat (iter_rows raw)) ws"
    by (simp add: rows fold_concat fold_map comp_def del: upt_Suc)
  finally show ?thesis .
qed

lemma cell_at_copy_rows:
  "cell_at (fst (copy_rows raw ws)) rc =
     (if rc \<in> set (concat (iter_rows raw)) then cell_at raw rc else cell_at ws rc)"
  unfolding copy_rows_fold cell_at_def
  by (simp add: map_of_fold_update[where f = "\<lambda>k. case map_of raw k of None \<Rightarrow> None | Some v \<Rightarrow> v"])

lemma cell_at_merged:
  "cell_at (fst (copy_rows raw (clear_sheet ws))) rc =
     (if rc \<in> set (concat (iter_rows raw)) then cell_at raw rc
      else if rc \<in> set (concat (iter_rows ws)) then None
      else cell_at ws rc)"
  by (simp add: cell_at_copy_rows cell_at_clear_sheet)

lemma foldr_max_ge: "x \<in> set (r # rs) \<Longrightarrow> x \<le> foldr max rs (r::nat)"
  by (induction rs) (auto simp: max_def)

lemma in_iter_rows:
  "rc \<in> set (concat (iter_rows ws)) \<longleftrightarrow>
     ws \<noteq> [] \<and> 1 \<le> fst rc \<and> fst rc \<le> max_row ws \<and> 1 \<le> snd rc \<and> snd rc \<le> max_column ws"
proof (cases rc)
  case (Pair a b)
  have "(a, b) \<in> set (concat (map (\<lambda>r. map (\<lambda>c. (r, c)) [1..<Suc m]) [1..<Suc n]))
          \<longleftrightarrow> 1 \<le> a \<and> a \<le> n \<and> 1 \<le> b \<and> b \<le> m" for n m
    by (auto simp: image_iff simp del: upt_Suc)
  then show ?thesis
    by (simp add: iter_rows_def Pair del: upt_Suc)
qed

lemma key_in_iter_rows:
  assumes "(rc, v) \<in> set ws" and "1 \<le> fst rc" and "1 \<le> snd rc"
  shows "rc \<in> set (concat (iter_rows ws))"
proof -
  from assms(1) obtain k w zs where ws: "ws = (k, w) # zs"
    by (cases ws) auto
  from assms(1) have r: "fst rc \<in> set (fst k # map (fst \<circ> fst) zs)"
    and c: "snd rc \<in> set (snd k # map (snd \<circ> fst) zs)"
    unfolding ws by force+
  have "fst rc \<le> foldr max (map (fst \<circ> fst) zs) (fst k)"
    and "snd rc \<le> foldr max (map (snd \<circ> fst) zs) (snd k)"
    using foldr_max_ge[OF r] foldr_max_ge[OF c] by blast+
  then have "fst rc \<le> max_row ws" and "snd rc \<le> max_column ws"
    by (simp_all add: max_row_def max_column_def ws)
  with ws assms(2,3) show ?thesis unfolding in_iter_rows by simp
qed

lemma merge_and_save_Inr:
  assumes "merge_and_save env fs raw_file new_master_file = Inr fs1"
  shows "\<exists>raw_wb master_wb raw_sheet import_sheet.
           load_workbook fs raw_file = Inr raw_wb
         \<and> load_workbook fs new_master_file = Inr master_wb
         \<and> map_of raw_wb ''RAW'' = Some raw_sheet
         \<and> map_of master_wb ''Raw Import'' = Some import_sheet
         \<and> fs1 = fs(new_master_file \<mapsto> Xlsx (AList.update ''Raw Import''
                     (fst (copy_rows raw_sheet (clear_sheet import_sheet))) master_wb))"
proof -
  from assms obtain raw_wb where l1: "load_workbook fs raw_file = Inr raw_wb"
    by (cases "load_workbook fs raw_file") (auto simp: merge_and_save_def)
  from assms l1 obtain master_wb where l2: "load_workbook fs new_master_file = Inr master_wb"
    by (cases "load_workbook fs new_master_file") (auto simp: merge_and_save_def)
  from assms l1 l2 obtain raw_sheet where s1: "map_of raw_wb ''RAW'' = Some raw_sheet"
    by (cases "map_of raw_wb ''RAW''") (auto simp: merge_and_save_def)
  from assms l1 l2 s1 obtain import_sheet where
    s2: "map_of master_wb ''Raw Import'' = Some import_sheet"
    by (cases "map_of master_wb ''Raw Import''") (auto simp: merge_and_save_def)
  from assms have "fs1 = fs(new_master_file \<mapsto> Xlsx (AList.update ''Raw Import''
                     (fst (copy_rows raw_sheet (clear_sheet import_sheet))) master_wb))"
    unfolding merge_and_save_unfold[OF l1 l2 s1 s2]
    by (auto simp: save_workbook_def split: if_splits)
  with l1 l2 s1 s2 show ?thesis by blast
qed

lemma example_dated_path:
  "dated_workbook_path example_processor example_date = ''/data/work/3895th_070224.xlsx''"
  by (simp add: dated_workbook_path_def example_date_def strftime_mdy_070224
      example_processor_def os_path_join_def join2_def)

text \<open>
  Claim C4. After a merge that succeeded, the saved workbook's sheet \<^verbatim>\<open>Raw Import\<close> holds, at
  every cell of the used range the destination sheet had before (rows 1 to its \<open>max_row\<close>,
  columns 1 to its \<open>max_column\<close>), the value of the \<^verbatim>\<open>RAW\<close> cell at the same row and column
  when that cell lies in the source's used range, and blank otherwise. Every cell that
  existed in the destination before lies in that used range, so no earlier value survives.
\<close>

theorem merge_clears_then_copies:
  assumes "merge_and_save env fs raw_file new_master_file = Inr fs1"
  shows "\<exists>raw_wb master_wb raw_sheet import_sheet saved_wb merged.
           load_workbook fs raw_file = Inr raw_wb
         \<and> load_workbook fs new_master_file = Inr master_wb
         \<and> map_of raw_wb ''RAW'' = Some raw_sheet
         \<and> map_of master_wb ''Raw Import'' = Some import_sheet
         \<and> fs1 new_master_file = Some (Xlsx saved_wb)
         \<and> map_of saved_wb ''Raw Import'' = Some merged
         \<and> (\<forall>r c. import_sheet \<noteq> [] \<and> 1 \<le> r \<and> r \<le> max_row import_sheet
                  \<and> 1 \<le> c \<and> c \<le> max_column import_sheet
               \<longrightarrow> cell_at merged (r, c) =
                     (if raw_sheet \<noteq> [] \<and> r \<le> max_row raw_sheet \<and> c \<le> max_column raw_sheet
                      then cell_at raw_sheet (r, c) else None))
         \<and> (\<forall>r c v. ((r, c), v) \<in> set import_sheet \<and> 1 \<le> r \<and> 1 \<le> c
               \<longrightarrow> r \<le> max_row import_sheet \<and> c \<le> max_column import_sheet)"
proof -
  from merge_and_save_Inr[OF assms] obtain raw_wb master_wb raw_sheet import_sheet where
    l1: "load_workbook fs raw_file = Inr raw_wb"
    and l2: "load_workbook fs new_master_file = Inr master_wb"
    and s1: "map_of raw_wb ''RAW'' = Some raw_sheet"
    and s2: "map_of master_wb ''Raw Import'' = Some import_sheet"
    and fs1: "fs1 = fs(new_master_file \<mapsto> Xlsx (AList.update ''Raw Import''
                     (fst (copy_rows raw_sheet (clear_sheet import_sheet))) master_wb))"
    by blast
  let ?merged = "fst (copy_rows raw_sheet (clear_sheet import_sheet))"
  let ?saved = "AList.update ''Raw Import'' ?merged master_wb"
  have f: "fs1 new_master_file = Some (Xlsx ?saved)"
    by (simp add: fs1)
  have m: "map_of ?saved ''Raw Import'' = Some ?merged"
    by (simp add: update_conv')
  have cells: "\<forall>r c. import_sheet \<noteq> [] \<and> 1 \<le> r \<and> r \<le> max_row import_sheet
                  \<and> 1 \<le> c \<and> c \<le> max_column import_sheet
               \<longrightarrow> cell_at ?merged (r, c) =
                     (if raw_sheet \<noteq> [] \<and> r \<le> max_row raw_sheet \<and> c \<le> max_column raw_sheet
                      then cell_at raw_sheet (r, c) else None)"
    unfolding cell_at_merged in_iter_rows by auto
  have keys: "\<forall>r c v. ((r, c), v) \<in> set import_sheet \<and> 1 \<le> r \<and> 1 \<le> c
               \<longrightarrow> r \<le> max_row import_sheet \<and> c \<le> max_column import_sheet"
  proof (intro allI impI)
    fix r c v
    assume "((r, c), v) \<in> set import_sheet \<and> 1 \<le> r \<and> 1 \<le> c"
    then have "(r, c) \<in> set (concat (iter_rows import_sheet))"
      using key_in_iter_rows[of "(r, c)" v import_sheet] by simp
    then show "r \<le> max_row import_sheet \<and> c \<le> max_column import_sheet"
      unfolding in_iter_rows by simp
  qed
  from l1 l2 s1 s2 f m cells keys show ?thesis by blast
qed

text \<open>
  The theorem on the example: the stale value at (1, 1) is replaced by the source value and
  the stale value at (3, 3), beyond the source's two rows and columns, becomes blank.
\<close>

theorem merge_clears_then_copies_witness:
  "(case merge_and_save example_env example_merge_fs ''/data/work/raw_export.xlsx''
           ''/data/work/3895th_070224.xlsx'' of
      Inl e \<Rightarrow> None
    | Inr fs1 \<Rightarrow>
        (case fs1 ''/data/work/3895th_070224.xlsx'' of
           Some (Xlsx wb) \<Rightarrow>
             map_option (\<lambda>m. (cell_at m (1, 1), cell_at m (3, 3))) (map_of wb ''Raw Import'')
         | _ \<Rightarrow> None))
   = Some (Some (Text ''time''), None)"
proof -
  let ?raw = "''/data/work/raw_export.xlsx''"
  let ?new = "''/data/work/3895th_070224.xlsx''"
  let ?rs = "[((1, 1), Some (Text ''time'')), ((1, 2), Some (Text ''fill_raw'')),
              ((2, 1), Some (Text ''07:00'')), ((2, 2), Some (Number 41))] :: worksheet"
  let ?is = "[((1, 1), Some (Text ''stale'')), ((3, 3), Some (Number 7))] :: worksheet"
  have l1: "load_workbook example_merge_fs ?raw = Inr example_raw_workbook"
    by (simp add: load_workbook_def example_merge_fs_def)
  have l2: "load_workbook example_merge_fs ?new = Inr example_template_workbook"
    by (simp add: load_workbook_def example_merge_fs_def)
  have s1: "map_of example_raw_workbook ''RAW'' = Some ?rs"
    by (simp add: example_raw_workbook_def)
  have s2: "map_of example_template_workbook ''Raw Import'' = Some ?is"
    by (simp add: example_template_workbook_def)
  obtain fs1 where ok: "merge_and_save example_env example_merge_fs ?raw ?new = Inr fs1"
    unfolding merge_and_save_unfold[OF l1 l2 s1 s2]
    by (simp add: save_workbook_def example_env_def)
  from merge_clears_then_copies[OF ok] l1 l2 s1 s2
  obtain saved_wb merged where f: "fs1 ?new = Some (Xlsx saved_wb)"
    and m: "map_of saved_wb ''Raw Import'' = Some merged"
    and cells: "\<forall>r c. ?is \<noteq> [] \<and> 1 \<le> r \<and> r \<le> max_row ?is \<and> 1 \<le> c \<and> c \<le> max_column ?is
               \<longrightarrow> cell_at merged (r, c) =
                     (if ?rs \<noteq> [] \<and> r \<le> max_row ?rs \<and> c \<le> max_column ?rs
                      then cell_at ?rs (r, c) else None)"
    by auto
  have mr: "max_row ?is = 3" "max_column ?is = 3" "max_row ?rs = 2" "max_column ?rs = 2"
    by (simp_all add: max_row_def max_column_def)
  have c11: "cell_at merged (Suc 0, Suc 0) = Some (Text ''time'')"
    using cells[rule_format, of 1 1] unfolding mr by (simp add: cell_at_def)
  have c33: "cell_at merged (3, 3) = None"
    using cells[rule_format, of 3 3] unfolding mr by simp
  show ?thesis
    by (simp add: ok f m c11 c33)
qed

lemma shutil_copy_Inr:
  assumes "shutil_copy env fs src dst = Inr fs0"
  shows "fs src \<noteq> None \<and> src \<noteq> dst \<and> \<not> copy_fails env src dst \<and> fs0 = fs(dst := fs src)"
  using assms by (auto simp: shutil_copy_def split: option.splits if_splits)

lemma merge_body_Inl:
  assumes "merge_body p env fs raw_file new_master_file = (Inl e, fs1)"
  shows "merge_and_save env fs raw_file new_master_file = Inl e \<and> fs1 = fs"
proof (cases "merge_and_save env fs raw_file new_master_file")
  case (Inl e')
  with assms show ?thesis by (simp add: merge_body_def)
next
  case (Inr fs2)
  from merge_body_after_save[OF this, of p] assms show ?thesis by simp
qed

lemma save_error_state_cases:
  assumes "fs new_master_file \<noteq> None"
  shows "save_error_state env fs new_master_file =
           (if copy_fails env new_master_file (new_master_file @ ''.error'') then fs
            else fs(new_master_file @ ''.error'' := fs new_master_file))"
  using assms by (auto simp: save_error_state_def shutil_copy_def)

lemma merge_and_save_missing_sheet:
  assumes "(\<exists>raw_wb. load_workbook fs raw_file = Inr raw_wb \<and> ''RAW'' \<notin> set (map fst raw_wb))
         \<or> (\<exists>master_wb. load_workbook fs new_master_file = Inr master_wb
               \<and> ''Raw Import'' \<notin> set (map fst master_wb))"
  shows "\<exists>e. merge_and_save env fs raw_file new_master_file = Inl e"
proof (cases "merge_and_save env fs raw_file new_master_file")
  case (Inl e)
  then show ?thesis by blast
next
  case (Inr fs1)
  from merge_and_save_Inr[OF this] obtain raw_wb master_wb raw_sheet import_sheet where
    "load_workbook fs raw_file = Inr raw_wb" "load_workbook fs new_master_file = Inr master_wb"
    "map_of raw_wb ''RAW'' = Some raw_sheet" "map_of master_wb ''Raw Import'' = Some import_sheet"
    by blast
  with assms show ?thesis
    by (auto dest!: map_of_SomeD simp: image_iff)
qed

lemma sheetless_copy:
  "shutil_copy env' sheetless_raw_fs ''/templates/3895th_070124.xlsx''
      (dated_workbook_path example_processor example_date)
   = (if copy_fails env' ''/templates/3895th_070124.xlsx'' ''/data/work/3895th_070224.xlsx''
      then Inl (OSError ''/data/work/3895th_070224.xlsx'')
      else Inr (sheetless_raw_fs(''/data/work/3895th_070224.xlsx''
                  \<mapsto> Xlsx example_template_workbook)))"
  by (simp add: example_dated_path shutil_copy_def sheetless_raw_fs_def example_fs_def)

text \<open>
  Claim C3. Once the template has been copied to the dated path, if the raw workbook loads
  and has no sheet titled \<^verbatim>\<open>RAW\<close>, or the dated workbook loads and has no sheet titled
  \<^verbatim>\<open>Raw Import\<close>, then \<^verbatim>\<open>update_master_workbook\<close> raises the error of the merge, the dated
  workbook file still holds exactly what the template holds, and no file other than the
  \<^verbatim>\<open>.error\<close> copy differs from the state right after the template copy.
\<close>

theorem missing_sheet_raises_before_mutation:
  assumes "merge_target_date p env master_template target_date = Inr d"
    and "shutil_copy env fs master_template (dated_workbook_path p d) = Inr fs0"
    and "(\<exists>raw_wb. load_workbook fs0 raw_file = Inr raw_wb \<and> ''RAW'' \<notin> set (map fst raw_wb))
         \<or> (\<exists>master_wb. load_workbook fs0 (dated_workbook_path p d) = Inr master_wb
               \<and> ''Raw Import'' \<notin> set (map fst master_wb))"
  shows "\<exists>e fs'. update_master_workbook p env fs raw_file master_template target_date = (Inl e, fs')
           \<and> merge_and_save env fs0 raw_file (dated_workbook_path p d) = Inl e
           \<and> fs' (dated_workbook_path p d) = fs master_template
           \<and> fs master_template \<noteq> None
           \<and> (\<forall>path. path \<noteq> dated_workbook_path p d @ ''.error'' \<longrightarrow> fs' path = fs0 path)"
proof -
  let ?new = "dated_workbook_path p d"
  from merge_and_save_missing_sheet[OF assms(3)] obtain e where
    e: "merge_and_save env fs0 raw_file ?new = Inl e" by blast
  then have mb: "merge_body p env fs0 raw_file ?new = (Inl e, fs0)"
    by (simp add: merge_body_def)
  from shutil_copy_Inr[OF assms(2)] have t: "fs master_template \<noteq> None"
    and fs0: "fs0 = fs(?new := fs master_template)" by simp_all
  then have ex: "fs0 ?new \<noteq> None" by simp
  have u: "update_master_workbook p env fs raw_file master_template target_date
             = (Inl e, save_error_state env fs0 ?new)"
    unfolding update_master_workbook_unfold[OF assms(1,2)] mb by simp
  note sc = save_error_state_cases[where fs = fs0 and new_master_file = "?new", OF ex]
  have "save_error_state env fs0 ?new ?new = fs master_template"
    unfolding sc by (simp add: fs0)
  moreover have "\<forall>path. path \<noteq> ?new @ ''.error'' \<longrightarrow> save_error_state env fs0 ?new path = fs0 path"
    unfolding sc by simp
  ultimately show ?thesis using u e t by blast
qed

text \<open>The theorem on a raw workbook whose only sheet is titled Sheet1.\<close>

theorem missing_sheet_raises_before_mutation_witness:
  "fst (update_master_workbook example_processor example_env sheetless_raw_fs
          ''/data/work/raw_export.xlsx'' ''/templates/3895th_070124.xlsx'' (Some example_date))
     = Inl (ValueError (''Raw export workbook missing '' @ [CHR 0x27] @ ''RAW'' @ [CHR 0x27]
                        @ '' sheet''))
   \<and> snd (update_master_workbook example_processor example_env sheetless_raw_fs
          ''/data/work/raw_export.xlsx'' ''/templates/3895th_070124.xlsx'' (Some example_date))
       ''/data/work/3895th_070224.xlsx''
     = Some (Xlsx example_template_workbook)"
proof -
  let ?raw = "''/data/work/raw_export.xlsx''"
  let ?t = "''/templates/3895th_070124.xlsx''"
  let ?new = "''/data/work/3895th_070224.xlsx''"
  let ?fs0 = "sheetless_raw_fs(?new \<mapsto> Xlsx example_template_workbook)"
  have td: "merge_target_date example_processor example_env ?t (Some example_date)
              = Inr example_date"
    by (simp add: merge_target_date_def)
  have cp: "shutil_copy example_env sheetless_raw_fs ?t
              (dated_workbook_path example_processor example_date) = Inr ?fs0"
    by (simp add: sheetless_copy example_env_def)
  have l: "load_workbook ?fs0 ?raw = Inr [(''Sheet1'', [])]"
    by (simp add: load_workbook_def sheetless_raw_fs_def)
  then have h: "(\<exists>raw_wb. load_workbook ?fs0 ?raw = Inr raw_wb \<and> ''RAW'' \<notin> set (map fst raw_wb))
         \<or> (\<exists>master_wb. load_workbook ?fs0 (dated_workbook_path example_processor example_date)
                = Inr master_wb \<and> ''Raw Import'' \<notin> set (map fst master_wb))"
    by simp
  have ms: "merge_and_save example_env ?fs0 ?raw ?new
              = Inl (ValueError (''Raw export workbook missing '' @ [CHR 0x27] @ ''RAW''
                                 @ [CHR 0x27] @ '' sheet''))"
  proof -
    have "load_workbook ?fs0 ?new = Inr example_template_workbook"
      by (simp add: load_workbook_def)
    then show ?thesis by (simp add: merge_and_save_def l)
  qed
  from missing_sheet_raises_before_mutation[OF td cp h] ms
  show ?thesis
    by (auto simp: example_dated_path sheetless_raw_fs_def example_fs_def)
qed

text \<open>
  Claim C5. If the \<^verbatim>\<open>try\<close> block of \<^verbatim>\<open>update_master_workbook\<close> fails with an error after the
  template was copied, the method raises that same error. The dated workbook exists at that
  point; when the copy to the path with \<^verbatim>\<open>.error\<close> appended is not refused, that path then
  holds the dated workbook's content, and when it is refused the file system stays as the
  failed block left it and the error raised is still the original one.
\<close>

theorem merge_failure_keeps_error_copy:
  assumes "merge_target_date p env master_template target_date = Inr d"
    and "shutil_copy env fs master_template (dated_workbook_path p d) = Inr fs0"
    and "merge_body p env fs0 raw_file (dated_workbook_path p d) = (Inl e, fs1)"
  shows "(let new_master_file = dated_workbook_path p d;
              error_file = new_master_file @ ''.error'';
              result = update_master_workbook p env fs raw_file master_template target_date
          in fst result = Inl e
           \<and> fs1 new_master_file \<noteq> None
           \<and> (\<not> copy_fails env new_master_file error_file
                \<longrightarrow> snd result = fs1(error_file := fs1 new_master_file))
           \<and> (copy_fails env new_master_file error_file \<longrightarrow> snd result = fs1))"
proof -
  let ?new = "dated_workbook_path p d"
  from merge_body_Inl[OF assms(3)] have fs1: "fs1 = fs0" by simp
  from shutil_copy_Inr[OF assms(2)] have "fs0 ?new \<noteq> None" by auto
  with fs1 have ex: "fs1 ?new \<noteq> None" by simp
  have u: "update_master_workbook p env fs raw_file master_template target_date
             = (Inl e, save_error_state env fs1 ?new)"
    unfolding update_master_workbook_unfold[OF assms(1,2)] assms(3) by simp
  note sc = save_error_state_cases[where fs = fs1 and new_master_file = "?new", OF ex]
  show ?thesis
    unfolding Let_def u sc using ex by simp
qed

text \<open>
  The theorem on the raw workbook without a RAW sheet, once with a working \<^verbatim>\<open>.error\<close> copy
  and once with that copy refused.
\<close>

theorem merge_failure_keeps_error_copy_witness:
  "fst (update_master_workbook example_processor example_env sheetless_raw_fs
          ''/data/work/raw_export.xlsx'' ''/templates/3895th_070124.xlsx'' (Some example_date))
     = Inl (ValueError (''Raw export workbook missing '' @ [CHR 0x27] @ ''RAW'' @ [CHR 0x27]
                        @ '' sheet''))
   \<and> snd (update_master_workbook example_processor example_env sheetless_raw_fs
          ''/data/work/raw_export.xlsx'' ''/templates/3895th_070124.xlsx'' (Some example_date))
       ''/data/work/3895th_070224.xlsx.error''
     = Some (Xlsx example_template_workbook)
   \<and> fst (update_master_workbook example_processor error_copy_failing_env sheetless_raw_fs
          ''/data/work/raw_export.xlsx'' ''/templates/3895th_070124.xlsx'' (Some example_date))
     = Inl (ValueError (''Raw export workbook missing '' @ [CHR 0x27] @ ''RAW'' @ [CHR 0x27]
                        @ '' sheet''))
   \<and> snd (update_master_workbook example_processor error_copy_failing_env sheetless_raw_fs
          ''/data/work/raw_export.xlsx'' ''/templates/3895th_070124.xlsx'' (Some example_date))
       ''/data/work/3895th_070224.xlsx.error''
     = None"
proof -
  let ?raw = "''/data/work/raw_export.xlsx''"
  let ?t = "''/templates/3895th_070124.xlsx''"
  let ?new = "''/data/work/3895th_070224.xlsx''"
  let ?fs0 = "sheetless_raw_fs(?new \<mapsto> Xlsx example_template_workbook)"
  let ?e = "ValueError (''Raw export workbook missing '' @ [CHR 0x27] @ ''RAW''
                                 @ [CHR 0x27] @ '' sheet'')"
  have td: "merge_target_date example_processor env' ?t (Some example_date) = Inr example_date"
    for env' :: env
    by (simp add: merge_target_date_def)
  have cp: "shutil_copy example_env sheetless_raw_fs ?t
              (dated_workbook_path example_processor example_date) = Inr ?fs0"
    by (simp add: sheetless_copy example_env_def)
  have cp': "shutil_copy error_copy_failing_env sheetless_raw_fs ?t
              (dated_workbook_path example_processor example_date) = Inr ?fs0"
    by (simp add: sheetless_copy error_copy_failing_env_def example_env_def)
  have mb: "merge_body example_processor env' ?fs0 ?raw
              (dated_workbook_path example_processor example_date) = (Inl ?e, ?fs0)"
    for env' :: env
    by (simp add: merge_body_def merge_and_save_def load_workbook_def sheetless_raw_fs_def
        example_dated_path)
  have ok: "\<not> copy_fails example_env ?new (?new @ ''.error'')"
    by (simp add: example_env_def)
  have bad: "copy_fails error_copy_failing_env ?new (?new @ ''.error'')"
    by (simp add: error_copy_failing_env_def example_env_def)
  from merge_failure_keeps_error_copy[OF td cp mb] ok
  have a: "fst (update_master_workbook example_processor example_env sheetless_raw_fs ?raw ?t
                  (Some example_date)) = Inl ?e"
    and b: "snd (update_master_workbook example_processor example_env sheetless_raw_fs ?raw ?t
                  (Some example_date)) = ?fs0(?new @ ''.error'' := ?fs0 ?new)"
    by (simp_all add: Let_def example_dated_path)
  from merge_failure_keeps_error_copy[OF td cp' mb] bad
  have c: "fst (update_master_workbook example_processor error_copy_failing_env sheetless_raw_fs
                  ?raw ?t (Some example_date)) = Inl ?e"
    and d: "snd (update_master_workbook example_processor error_copy_failing_env
                  sheetless_raw_fs ?raw ?t (Some example_date)) = ?fs0"
    by (simp_all add: Let_def example_dated_path)
  show ?thesis
    unfolding a b c d by (simp add: sheetless_raw_fs_def example_fs_def)
qed

section \<open>Recalculation Trigger: results\<close>

text \<open>
  Claim C7. \<^verbatim>\<open>_recalculate_with_libreoffice\<close> returns normally for every processor,
  environment, file system and path: whatever fails inside (no scratch directory, an engine
  that cannot be started, a refused copy) is absorbed, and a return code other than zero is
  not an error at all. When the capability flag is false, and when no name in the scratch
  directory starts with the stem of the file name, the file system is left as it was.
\<close>

theorem recalculate_never_raises:
  "fst (recalculate_with_libreoffice p env fs excel_file) = Inr ()
   \<and> (\<not> libreoffice_available p
        \<longrightarrow> snd (recalculate_with_libreoffice p env fs excel_file) = fs)
   \<and> ((\<forall>temp_dir. mkdtemp env = Some temp_dir
          \<longrightarrow> converted_files (os_path_basename excel_file)
                (snd (office_tool env (office_cmd temp_dir excel_file) fs)) = [])
        \<longrightarrow> snd (recalculate_with_libreoffice p env fs excel_file) = fs)"
proof (intro conjI impI)
  show "fst (recalculate_with_libreoffice p env fs excel_file) = Inr ()"
    by (rule recalculate_returns)
next
  assume "\<not> libreoffice_available p"
  then show "snd (recalculate_with_libreoffice p env fs excel_file) = fs"
    by (simp add: recalculate_with_libreoffice_def)
next
  assume nomatch: "\<forall>temp_dir. mkdtemp env = Some temp_dir
          \<longrightarrow> converted_files (os_path_basename excel_file)
                (snd (office_tool env (office_cmd temp_dir excel_file) fs)) = []"
  have "snd (recalculate_body env fs excel_file) = fs"
  proof (cases "mkdtemp env")
    case None
    then show ?thesis by (simp add: recalculate_body_def)
  next
    case (Some temp_dir)
    with nomatch have "converted_files (os_path_basename excel_file)
                (snd (office_tool env (office_cmd temp_dir excel_file) fs)) = []"
      by simp
    then show ?thesis
      by (cases "office_tool env (office_cmd temp_dir excel_file) fs")
         (simp add: recalculate_body_def Some split: proc_result.splits)
  qed
  then show "snd (recalculate_with_libreoffice p env fs excel_file) = fs"
    by (cases "recalculate_body env fs excel_file")
       (auto simp: recalculate_with_libreoffice_def split: sum.splits)
qed

text \<open>The theorem on a processor without the engine and on an engine that writes nothing.\<close>

theorem recalculate_never_raises_witness:
  "\<not> libreoffice_available offline_processor
   \<and> recalculate_with_libreoffice offline_processor example_env example_merge_fs
        ''/data/work/3895th_070224.xlsx'' = (Inr (), example_merge_fs)
   \<and> converted_files (os_path_basename ''/data/work/3895th_070224.xlsx'')
        (snd (office_tool example_env
               (office_cmd ''/tmp/tmpa1b2c3'' ''/data/work/3895th_070224.xlsx'') example_merge_fs))
       = []
   \<and> recalculate_with_libreoffice example_processor example_env example_merge_fs
        ''/data/work/3895th_070224.xlsx'' = (Inr (), example_merge_fs)"
proof -
  let ?f = "''/data/work/3895th_070224.xlsx''"
  have off: "\<not> libreoffice_available offline_processor"
    by (simp add: offline_processor_def)
  have none: "\<forall>temp_dir. mkdtemp example_env = Some temp_dir
          \<longrightarrow> converted_files (os_path_basename ?f)
                (snd (office_tool example_env (office_cmd temp_dir ?f) example_merge_fs)) = []"
    by (simp add: example_env_def converted_files_def)
  from recalculate_never_raises[of offline_processor example_env example_merge_fs ?f] off
  have a: "recalculate_with_libreoffice offline_processor example_env example_merge_fs ?f
             = (Inr (), example_merge_fs)"
    by (simp add: prod_eq_iff)
  from recalculate_never_raises[of example_processor example_env example_merge_fs ?f] none
  have b: "recalculate_with_libreoffice example_processor example_env example_merge_fs ?f
             = (Inr (), example_merge_fs)"
    by (simp add: prod_eq_iff)
  have c: "converted_files (os_path_basename ?f)
        (snd (office_tool example_env (office_cmd ''/tmp/tmpa1b2c3'' ?f) example_merge_fs)) = []"
    by (simp add: example_env_def converted_files_def)
  from off a b c show ?thesis by blast
qed


section \<open>Export Invoker: results\<close>

lemma run_vde_export_window_error:
  assumes "export_date p env target_date = Inr (d, lg0)" and "export_window p d = Inl e"
  shows "fst (run_vde_export p env fs output_file target_date) = Inl e"
  using assms by (simp add: run_vde_export_def)

lemma run_vde_export_log:
  assumes "export_date p env target_date = Inr (d, lg0)"
    and "export_window p d = Inr (s, e)"
    and "export_tool env (export_cmd p env output_file s e) (export_script_dir p) fs = (res, fs1)"
  shows "snd (snd (run_vde_export p env fs output_file target_date)) =
           lg0
           @ [(INFO, ''Exporting data from '' @ str_datetime env s @ '' to '' @ str_datetime env e
                     @ '' ('' @ export_start_time p @ '' to '' @ export_end_time p @ '')''),
              (INFO, ''Running vde.py command: ''
                     @ py_join '' '' (mask_cmd (export_cmd p env output_file s e)))]
           @ (case res of
                LaunchError e \<Rightarrow> []
              | Undecodable \<Rightarrow> []
              | Completed rc out err \<Rightarrow>
                  if rc \<noteq> 0
                  then (ERROR, ''Failed to run vde.py: ''
                          @ called_process_error_str env (export_cmd p env output_file s e) rc)
                       # log_stderr err
                  else log_stdout out
                       @ (if fs1 output_file = None then []
                          else [(INFO, ''Generated raw data at '' @ output_file)]))"
  using assms
  by (simp add: run_vde_export_def Let_def split: proc_result.splits)

lemma parse_hm_07_00_00: "parse_hm ''07:00:00'' = Inl (ValueError ''too many values to unpack (expected 2)'')"
  by (simp add: parse_hm_def py_int_def int_isspace_def py_digits_def is_digit_def
      digit_val_def)

text \<open>
  Claim C2, as amended. Once the export date and the export window are computed, which
  needs start and end strings that split at the colon into exactly two integers in the
  ranges of an hour and a minute, \<^verbatim>\<open>run_vde_export\<close> raises exactly when the export process
  cannot be started, prints output that does not decode as text, exits with a return code
  other than zero, or exits with zero and the output file does not exist. On a zero exit
  with decodable output and the output file present it returns the output path. In every
  case the file system is the one the export process left.
\<close>

theorem run_vde_export_raises_iff:
  assumes "export_date p env target_date = Inr (d, lg0)"
    and "export_window p d = Inr (start_time, end_time)"
  shows "(case export_tool env (export_cmd p env output_file start_time end_time)
                 (export_script_dir p) fs of
            (res, fs1) \<Rightarrow>
              ((\<exists>err. fst (run_vde_export p env fs output_file target_date) = Inl err)
                 \<longleftrightarrow> (case res of
                        LaunchError e \<Rightarrow> True
                      | Undecodable \<Rightarrow> True
                      | Completed rc out err \<Rightarrow> rc \<noteq> 0 \<or> fs1 output_file = None))
            \<and> ((\<exists>out err. res = Completed 0 out err) \<and> fs1 output_file \<noteq> None
                 \<longrightarrow> fst (run_vde_export p env fs output_file target_date) = Inr output_file)
            \<and> fst (snd (run_vde_export p env fs output_file target_date)) = fs1)"
proof (cases "export_tool env (export_cmd p env output_file start_time end_time)
                 (export_script_dir p) fs")
  case (Pair res fs1)
  from run_vde_export_unfold[OF assms Pair] show ?thesis
    unfolding Pair by (cases res) auto
qed

text \<open>The theorem on the example, where the export exits with 0 and writes the file.\<close>

theorem run_vde_export_raises_iff_witness:
  "export_date example_processor example_env (Some example_date) = Inr (example_date, [])
   \<and> export_window example_processor example_date
       = Inr (example_date\<lparr>hour := 7, minute := 0, second := 0, microsecond := 0\<rparr>,
              example_date\<lparr>hour := 19, minute := 0, second := 0, microsecond := 0\<rparr>)
   \<and> fst (run_vde_export example_processor example_env example_fs ''/data/work/raw_export.xlsx''
            (Some example_date)) = Inr ''/data/work/raw_export.xlsx''
   \<and> fst (snd (run_vde_export example_processor example_env example_fs
                  ''/data/work/raw_export.xlsx'' (Some example_date)))
       = example_fs(''/data/work/raw_export.xlsx'' \<mapsto> Xlsx example_raw_workbook)"
proof -
  let ?raw = "''/data/work/raw_export.xlsx''"
  have d: "export_date example_processor example_env (Some example_date) = Inr (example_date, [])"
    by (simp add: export_date_def)
  have t: "export_tool example_env
             (export_cmd example_processor example_env ?raw
                (example_date\<lparr>hour := 7, minute := 0, second := 0, microsecond := 0\<rparr>)
                (example_date\<lparr>hour := 19, minute := 0, second := 0, microsecond := 0\<rparr>))
             (export_script_dir example_processor) example_fs
           = (Completed 0 ''done'' [], example_fs(?raw \<mapsto> Xlsx example_raw_workbook))"
    by (simp add: example_env_def export_cmd_output)
  from run_vde_export_raises_iff[OF d example_window, where output_file = ?raw
      and fs = example_fs]
  have "fst (run_vde_export example_processor example_env example_fs ?raw (Some example_date))
          = Inr ?raw
        \<and> fst (snd (run_vde_export example_processor example_env example_fs ?raw
                  (Some example_date)))
          = example_fs(?raw \<mapsto> Xlsx example_raw_workbook)"
    unfolding t by simp
  with d example_window show ?thesis by simp
qed

text \<open>
  Claim C2 as stated fails. In the environment where the export process would exit with 0
  and write the file, as the first run shows, a start time of \<^verbatim>\<open>07:00:00\<close> makes
  \<^verbatim>\<open>run_vde_export\<close> raise before any process is run. A process that cannot be started
  raises although no process exited with a return code other than zero. And a process that
  writes the file and exits with 0 still makes the method raise when its output does not
  decode.
\<close>

theorem export_raises_without_failed_process_counterexample:
  "fst (run_vde_export example_processor example_env example_fs ''/data/work/raw_export.xlsx''
          (Some example_date)) = Inr ''/data/work/raw_export.xlsx''
   \<and> fst (run_vde_export bad_window_processor example_env example_fs
            ''/data/work/raw_export.xlsx'' (Some example_date))
       = Inl (ValueError ''too many values to unpack (expected 2)'')
   \<and> fst (run_vde_export example_processor launch_failing_env example_fs
            ''/data/work/raw_export.xlsx'' (Some example_date))
       = Inl (OSError ''No such file or directory'')
   \<and> fst (run_vde_export example_processor undecodable_output_env example_fs
            ''/data/work/raw_export.xlsx'' (Some example_date))
       = Inl UnicodeDecodeError
   \<and> fst (snd (run_vde_export example_processor undecodable_output_env example_fs
                  ''/data/work/raw_export.xlsx'' (Some example_date)))
         ''/data/work/raw_export.xlsx''
       = Some (Xlsx example_raw_workbook)"
proof -
  have d: "export_date p env (Some example_date) = Inr (example_date, [])"
    for p and env :: env
    by (simp add: export_date_def)
  have w: "export_window bad_window_processor example_date
             = Inl (ValueError ''too many values to unpack (expected 2)'')"
    by (simp add: export_window_def bad_window_processor_def parse_hm_07_00_00)
  have t: "export_tool launch_failing_env cmd cwd example_fs
             = (LaunchError (OSError ''No such file or directory''), example_fs)" for cmd cwd
    by (simp add: launch_failing_env_def)
  have u: "export_tool undecodable_output_env
             (export_cmd example_processor undecodable_output_env ''/data/work/raw_export.xlsx''
                (example_date\<lparr>hour := 7, minute := 0, second := 0, microsecond := 0\<rparr>)
                (example_date\<lparr>hour := 19, minute := 0, second := 0, microsecond := 0\<rparr>))
             (export_script_dir example_processor) example_fs
           = (Undecodable, example_fs(''/data/work/raw_export.xlsx'' \<mapsto> Xlsx example_raw_workbook))"
    by (simp add: undecodable_output_env_def export_cmd_output)
  from example_export run_vde_export_window_error[OF d w]
    run_vde_export_unfold[OF d example_window t] run_vde_export_unfold[OF d example_window u]
  show ?thesis by simp
qed

subsection \<open>The masked command\<close>

lemma join2_python_last: "last (join2 a ''python'') = CHR ''n''"
  by (simp add: join2_def)

lemma venv_python_not_flag:
  "os_path_join v [''bin'', ''python''] \<noteq> ''--apiKeyId''
   \<and> os_path_join v [''bin'', ''python''] \<noteq> ''--apiKey''"
proof -
  have "last (os_path_join v [''bin'', ''python'']) = CHR ''n''"
    by (simp add: os_path_join_def join2_python_last)
  then show ?thesis by auto
qed

lemma mask_cmd_usual:
  assumes "export_script_path p \<noteq> ''--apiKeyId''" and "export_script_path p \<noteq> ''--apiKey''"
  shows "mask_cmd (export_cmd p env output_file s e)
           = (export_cmd p env output_file s e)[5 := ''<redacted>'', 7 := ''<redacted>'']"
  using assms venv_python_not_flag[of "venv_path p"]
  by (simp add: mask_cmd_def mask_after_def export_cmd_def)

lemma mask_cmd_script_key:
  assumes "export_script_path p = ''--apiKey''"
  shows "mask_cmd (export_cmd p env output_file s e)
           = (export_cmd p env output_file s e)[5 := ''<redacted>'', 2 := ''<redacted>'']"
  using assms venv_python_not_flag[of "venv_path p"]
  by (simp add: mask_cmd_def mask_after_def export_cmd_def)

lemma running_line_logged:
  assumes "export_date p env target_date = Inr (d, lg0)"
    and "export_window p d = Inr (s, e)"
  shows "(INFO, ''Running vde.py command: ''
                @ py_join '' '' (mask_cmd (export_cmd p env output_file s e)))
           \<in> set (snd (snd (run_vde_export p env fs output_file target_date)))"
proof (cases "export_tool env (export_cmd p env output_file s e) (export_script_dir p) fs")
  case (Pair res fs1)
  show ?thesis
    unfolding run_vde_export_log[OF assms Pair] by simp
qed

text \<open>
  For a script path that is no flag string, the command handed to the export process has
  the key id at position 5 and the key at position 7, after the two flags, and the line
  logged is that command with the marker at these two positions and nowhere else. The file
  system after the run is the one the export process leaves when run with the command
  itself.
\<close>

lemma masked_command_usual_frame:
  assumes "export_script_path p \<noteq> ''--apiKeyId''" and "export_script_path p \<noteq> ''--apiKey''"
    and "export_date p env target_date = Inr (d, lg0)"
    and "export_window p d = Inr (s, e)"
  shows "length (export_cmd p env output_file s e) = 28"
    and "export_cmd p env output_file s e ! 4 = ''--apiKeyId''"
    and "export_cmd p env output_file s e ! 5 = api_key_id p"
    and "export_cmd p env output_file s e ! 6 = ''--apiKey''"
    and "export_cmd p env output_file s e ! 7 = api_key p"
    and "(INFO, ''Running vde.py command: ''
                @ py_join '' '' ((export_cmd p env output_file s e)
                                   [5 := ''<redacted>'', 7 := ''<redacted>'']))
           \<in> set (snd (snd (run_vde_export p env fs output_file target_date)))"
    and "fst (snd (run_vde_export p env fs output_file target_date))
           = snd (export_tool env (export_cmd p env output_file s e) (export_script_dir p) fs)"
proof -
  show "(INFO, ''Running vde.py command: ''
                @ py_join '' '' ((export_cmd p env output_file s e)
                                   [5 := ''<redacted>'', 7 := ''<redacted>'']))
           \<in> set (snd (snd (run_vde_export p env fs output_file target_date)))"
    using running_line_logged[OF assms(3,4), of output_file fs]
    unfolding mask_cmd_usual[OF assms(1,2)] .
  obtain res fs1 where t: "export_tool env (export_cmd p env output_file s e)
                             (export_script_dir p) fs = (res, fs1)"
    by (cases "export_tool env (export_cmd p env output_file s e) (export_script_dir p) fs")
  from run_vde_export_unfold[OF assms(3,4) t]
  show "fst (snd (run_vde_export p env fs output_file target_date))
           = snd (export_tool env (export_cmd p env output_file s e) (export_script_dir p) fs)"
    by (simp add: t)
qed (simp_all add: export_cmd_def)

text \<open>
  A processor constructed with the script path \<^verbatim>\<open>--apiKey\<close> has the empty string as script
  directory and \<^verbatim>\<open>.venv\<close> as environment path.
\<close>

lemma renamed_script_window:
  "export_window renamed_script_processor d =
     Inr (d\<lparr>hour := 7, minute := 0, second := 0, microsecond := 0\<rparr>,
          d\<lparr>hour := 19, minute := 0, second := 0, microsecond := 0\<rparr>)"
  by (simp add: export_window_def renamed_script_processor_def init_processor_def parse_hm_7_00
      parse_hm_19_00 replace_time_def)

lemma renamed_script_cmd:
  "export_cmd renamed_script_processor (example_env\<lparr>export_tool := tool\<rparr>)
     ''/data/work/raw_export.xlsx''
     (example_date\<lparr>hour := 7, minute := 0, second := 0, microsecond := 0\<rparr>)
     (example_date\<lparr>hour := 19, minute := 0, second := 0, microsecond := 0\<rparr>)
   = [''.venv/bin/python'', ''--apiKey'', ''-vv'', ''excel'', ''--apiKeyId'', ''key-id-123'',
      ''--apiKey'', ''SECRET'', ''--orgId'', ''org-9'', ''--resourceName'', ''langer_fill'',
      ''--start'', ''2024-07-02T07:00:00-0400'', ''--end'', ''2024-07-02T19:00:00-0400'',
      ''--timezone'', ''America/New_York'', ''--bucketPeriod'', ''PT5M'', ''--bucketMethod'',
      ''max'', ''--includeKeys'', ''.*_raw'', ''--output'', ''/data/work/raw_export.xlsx'',
      ''--tab'', ''RAW'']"
  by (simp add: export_cmd_def renamed_script_processor_def init_processor_def
      os_path_dirname_def os_path_join_def join2_def strftime_iso_z_def strftime_ymd_def
      pad2_unfold pad4_unfold digit_char_def offset_suffix_def fmt_offset_def example_date_def
      example_env_def)

text \<open>
  Claim C10 says that the masked command that \<^verbatim>\<open>run_vde_export\<close> logs differs from the
  command it executes in exactly the two elements that follow the flags \<^verbatim>\<open>--apiKeyId\<close> and
  \<^verbatim>\<open>--apiKey\<close>, every other argument being logged as it is executed. The code does not do
  that for a processor constructed with the export script path \<^verbatim>\<open>--apiKey\<close>:
  \<^verbatim>\<open>list.index\<close> finds the script path before the flag. Whatever the export process is, it
  is handed a command with \<^verbatim>\<open>-vv\<close> as third element and the key after the flag
  \<^verbatim>\<open>--apiKey\<close>, and the file system after the run is the one it leaves. The line logged
  before has the marker in place of \<^verbatim>\<open>-vv\<close> and of the key id, and the key after the flag.
\<close>

theorem renamed_script_masks_wrong_element:
  "(let run = run_vde_export renamed_script_processor (example_env\<lparr>export_tool := tool\<rparr>) fs
                ''/data/work/raw_export.xlsx'' (Some example_date)
    in snd (snd run) ! 1 = (INFO, ''Running vde.py command: .venv/bin/python --apiKey <redacted> excel --apiKeyId <redacted> --apiKey SECRET --orgId org-9 --resourceName langer_fill --start 2024-07-02T07:00:00-0400 --end 2024-07-02T19:00:00-0400 --timezone America/New_York --bucketPeriod PT5M --bucketMethod max --includeKeys .*_raw --output /data/work/raw_export.xlsx --tab RAW'')
     \<and> fst (snd run) = snd (tool
      [''.venv/bin/python'', ''--apiKey'', ''-vv'', ''excel'', ''--apiKeyId'', ''key-id-123'',
      ''--apiKey'', ''SECRET'', ''--orgId'', ''org-9'', ''--resourceName'', ''langer_fill'',
      ''--start'', ''2024-07-02T07:00:00-0400'', ''--end'', ''2024-07-02T19:00:00-0400'',
      ''--timezone'', ''America/New_York'', ''--bucketPeriod'', ''PT5M'', ''--bucketMethod'',
      ''max'', ''--includeKeys'', ''.*_raw'', ''--output'', ''/data/work/raw_export.xlsx'',
      ''--tab'', ''RAW'']
      [] fs))"
proof -
  let ?env = "example_env\<lparr>export_tool := tool\<rparr>"
  let ?raw = "''/data/work/raw_export.xlsx''"
  let ?s = "example_date\<lparr>hour := 7, minute := 0, second := 0, microsecond := 0\<rparr>"
  let ?e = "example_date\<lparr>hour := 19, minute := 0, second := 0, microsecond := 0\<rparr>"
  let ?cmd = "export_cmd renamed_script_processor ?env ?raw ?s ?e"
  have d: "export_date renamed_script_processor ?env (Some example_date)
             = Inr (example_date, [])"
    by (simp add: export_date_def)
  have dir: "export_script_dir renamed_script_processor = []"
    by (simp add: renamed_script_processor_def init_processor_def os_path_dirname_def)
  obtain res fs1 where t: "export_tool ?env ?cmd (export_script_dir renamed_script_processor) fs
                             = (res, fs1)"
    by (cases "export_tool ?env ?cmd (export_script_dir renamed_script_processor) fs")
  then have t': "tool ?cmd [] fs = (res, fs1)"
    by (simp add: dir)
  have m: "mask_cmd ?cmd = ?cmd[5 := ''<redacted>'', 2 := ''<redacted>'']"
    by (rule mask_cmd_script_key)
       (simp add: renamed_script_processor_def init_processor_def)
  have line: "snd (snd (run_vde_export renamed_script_processor ?env fs ?raw (Some example_date))) ! 1
        = (INFO, ''Running vde.py command: '' @ py_join '' '' (?cmd[5 := ''<redacted>'', 2 := ''<redacted>'']))"
    unfolding run_vde_export_log[OF d renamed_script_window t] m by simp
  have files: "fst (snd (run_vde_export renamed_script_processor ?env fs ?raw (Some example_date)))
        = snd (tool ?cmd [] fs)"
    using run_vde_export_unfold[OF d renamed_script_window t] by (simp add: t')
  show ?thesis
    unfolding Let_def line files
    unfolding renamed_script_cmd
    by simp
qed

subsection \<open>Credentials in the log\<close>

text \<open>
  With a script path that is no flag string, the masked command does not depend on the key
  id or the key at all.
\<close>

lemma running_line_independent_of_credentials:
  assumes "export_script_path p \<noteq> ''--apiKeyId''" and "export_script_path p \<noteq> ''--apiKey''"
  shows "mask_cmd (export_cmd (p\<lparr>api_key_id := i, api_key := k\<rparr>) env output_file s e)
           = mask_cmd (export_cmd p env output_file s e)"
proof -
  let ?p = "p\<lparr>api_key_id := i, api_key := k\<rparr>"
  have "mask_cmd (export_cmd ?p env output_file s e)
          = (export_cmd ?p env output_file s e)[5 := ''<redacted>'', 7 := ''<redacted>'']"
    using assms by (intro mask_cmd_usual) simp_all
  then show ?thesis
    unfolding mask_cmd_usual[OF assms] by (simp add: export_cmd_def)
qed

text \<open>
  With a script path equal to \<^verbatim>\<open>--apiKey\<close>, \<^verbatim>\<open>list.index\<close> finds that path first: the
  element after it is masked and the key stays in the masked command.
\<close>

lemma masking_misses_renamed_script:
  "mask_cmd (export_cmd (example_processor\<lparr>export_script_path := ''--apiKey''\<rparr>) env
       output_file s e) ! 7 = api_key example_processor
   \<and> mask_cmd (export_cmd (example_processor\<lparr>export_script_path := ''--apiKey''\<rparr>) env
       output_file s e) ! 2 = ''<redacted>''"
proof -
  let ?p = "example_processor\<lparr>export_script_path := ''--apiKey''\<rparr>"
  have "export_script_path ?p = ''--apiKey''" by simp
  from mask_cmd_script_key[OF this, of env output_file s e] show ?thesis
    by (simp add: export_cmd_def)
qed

lemma failing_export_log:
  "snd (snd (run_vde_export example_processor failing_export_env example_fs
               ''/data/work/raw_export.xlsx'' (Some example_date))) ! 2
   = (ERROR, ''Failed to run vde.py: ''
             @ called_process_error_str failing_export_env
                 (export_cmd example_processor failing_export_env ''/data/work/raw_export.xlsx''
                    (example_date\<lparr>hour := 7, minute := 0, second := 0, microsecond := 0\<rparr>)
                    (example_date\<lparr>hour := 19, minute := 0, second := 0, microsecond := 0\<rparr>))
                 1)"
proof -
  have d: "export_date example_processor failing_export_env (Some example_date)
             = Inr (example_date, [])"
    by (simp add: export_date_def)
  have t: "export_tool failing_export_env cmd cwd example_fs
             = (Completed 1 [] ''Unauthorized'', example_fs)" for cmd cwd
    by (simp add: failing_export_env_def)
  show ?thesis
    unfolding run_vde_export_log[OF d example_window t] by simp
qed

text \<open>
  Claim C6 says that no command line logged by \<^verbatim>\<open>run_vde_export\<close> contains the configured
  API key or key id. The code does not achieve that. When the export process exits with
  status 1, the handler logs \<^verbatim>\<open>Failed to run vde.py:\<close> followed by the text of the
  \<^verbatim>\<open>CalledProcessError\<close>, and that text prints the executed command, not the masked one:
  the third log line of the run holds both the configured key and the configured key id.
\<close>

theorem failed_export_logs_credentials:
  "(let line = snd (snd (snd (run_vde_export example_processor failing_export_env example_fs
                                ''/data/work/raw_export.xlsx'' (Some example_date))) ! 2)
    in prefix ''Failed to run vde.py: Command '' line
     \<and> py_contains (api_key example_processor) line
     \<and> py_contains (api_key_id example_processor) line)"
  unfolding failing_export_log Let_def
  by (simp add: Let_def called_process_error_str_def py_repr_list_def py_repr_str_def repr_char_def
      py_printable_def export_cmd_def example_processor_def failing_export_env_def
      example_env_def os_path_join_def join2_def strftime_iso_z_def strftime_ymd_def
      pad2_unfold pad4_unfold digit_char_def offset_suffix_def fmt_offset_def example_date_def
      str_int_def)

section \<open>Pipeline Orchestrator: results\<close>

text \<open>
  Claim C1. For a master template whose base name is \<^verbatim>\<open>3895th_070124.xlsx\<close> and no explicit
  target date, \<^verbatim>\<open>process\<close> resolves the target date to 2 July 2024, runs the export with the
  raw artifact path \<^verbatim>\<open>raw_export.xlsx\<close> joined to the working directory and that date
  (an export that returns has left a file at that path), then runs the merge with the same
  path and the same date, and a path it returns is
  \<^verbatim>\<open>3895th_070224.xlsx\<close> joined to the working directory. For a working directory that is
  not empty and does not end in a slash, the joined paths are the directory, a slash and
  the file name.
\<close>

theorem process_070124:
  assumes "os_path_basename master_template = ''3895th_070124.xlsx''"
  shows "(let d = \<lparr>year = 2024, month = 7, day = 2, hour = 0, minute = 0, second = 0,
                   microsecond = 0, tzinfo = gettz env (timezone p)\<rparr>;
              raw_file = os_path_join (work_dir p) [''raw_export.xlsx'']
          in process_target_date p env master_template None = Inr d
           \<and> process p env fs master_template None =
               (if makedirs_fails env (work_dir p) then (Inl (OSError (work_dir p)), fs)
                else (case run_vde_export p env fs raw_file (Some d) of
                        (Inl e, fs1, lg) \<Rightarrow> (Inl e, fs1)
                      | (Inr out, fs1, lg) \<Rightarrow>
                          update_master_workbook p env fs1 raw_file master_template (Some d)))
           \<and> (\<forall>out fs1 lg. run_vde_export p env fs raw_file (Some d) = (Inr out, fs1, lg)
                \<longrightarrow> out = raw_file \<and> fs1 raw_file \<noteq> None)
           \<and> (\<forall>path fs'. process p env fs master_template None = (Inr path, fs')
                \<longrightarrow> path = os_path_join (work_dir p) [''3895th_070224.xlsx''])
           \<and> (work_dir p \<noteq> [] \<and> last (work_dir p) \<noteq> CHR ''/''
                \<longrightarrow> raw_file = work_dir p @ ''/raw_export.xlsx''
                  \<and> os_path_join (work_dir p) [''3895th_070224.xlsx'']
                      = work_dir p @ ''/3895th_070224.xlsx''))"
proof -
  define d where "d = \<lparr>year = 2024, month = 7, day = 2, hour = 0, minute = 0, second = 0,
                   microsecond = 0, tzinfo = gettz env (timezone p)\<rparr>"
  define raw_file where "raw_file = os_path_join (work_dir p) [''raw_export.xlsx'']"
  have t: "process_target_date p env master_template None = Inr d"
    by (simp add: process_target_date_def extract_date_070124[OF assms] plus_one_day_def
        days_in_month_def d_def)
  have pr: "process p env fs master_template None =
               (if makedirs_fails env (work_dir p) then (Inl (OSError (work_dir p)), fs)
                else (case run_vde_export p env fs raw_file (Some d) of
                        (Inl e, fs1, lg) \<Rightarrow> (Inl e, fs1)
                      | (Inr out, fs1, lg) \<Rightarrow>
                          update_master_workbook p env fs1 raw_file master_template (Some d)))"
    unfolding process_def t raw_file_def by (simp add: Let_def)
  have path: "dated_workbook_path p d = os_path_join (work_dir p) [''3895th_070224.xlsx'']"
    by (simp add: dated_workbook_path_def d_def strftime_mdy_070224)
  have ret: "\<forall>path fs'. process p env fs master_template None = (Inr path, fs')
                \<longrightarrow> path = os_path_join (work_dir p) [''3895th_070224.xlsx'']"
  proof (intro allI impI)
    fix path fs'
    assume a: "process p env fs master_template None = (Inr path, fs')"
    then obtain out fs1 lg where
      "update_master_workbook p env fs1 raw_file master_template (Some d) = (Inr path, fs')"
      unfolding pr by (auto split: if_splits prod.splits sum.splits)
    from update_master_workbook_result[OF this] path
    show "path = os_path_join (work_dir p) [''3895th_070224.xlsx'']" by simp
  qed
  have lit: "work_dir p \<noteq> [] \<and> last (work_dir p) \<noteq> CHR ''/''
                \<longrightarrow> raw_file = work_dir p @ ''/raw_export.xlsx''
                  \<and> os_path_join (work_dir p) [''3895th_070224.xlsx'']
                      = work_dir p @ ''/3895th_070224.xlsx''"
    by (simp add: raw_file_def os_path_join_def join2_def)
  have art: "\<forall>out fs1 lg. run_vde_export p env fs raw_file (Some d) = (Inr out, fs1, lg)
                \<longrightarrow> out = raw_file \<and> fs1 raw_file \<noteq> None"
    using run_vde_export_result by blast
  show ?thesis
    unfolding Let_def using t pr art ret lit unfolding d_def raw_file_def by simp
qed

text \<open>The theorem on the example: the whole pipeline runs and returns the dated path.\<close>

theorem process_070124_witness:
  "os_path_basename ''/templates/3895th_070124.xlsx'' = ''3895th_070124.xlsx''
   \<and> fst (run_vde_export example_processor example_env example_fs ''/data/work/raw_export.xlsx''
            (Some \<lparr>year = 2024, month = 7, day = 2, hour = 0, minute = 0, second = 0,
                    microsecond = 0,
                    tzinfo = gettz example_env (timezone example_processor)\<rparr>))
       = Inr ''/data/work/raw_export.xlsx''
   \<and> fst (process example_processor example_env example_fs ''/templates/3895th_070124.xlsx'' None)
       = Inr ''/data/work/3895th_070224.xlsx''"
proof -
  let ?t = "''/templates/3895th_070124.xlsx''"
  let ?raw = "''/data/work/raw_export.xlsx''"
  let ?new = "''/data/work/3895th_070224.xlsx''"
  let ?d = "\<lparr>year = 2024, month = 7, day = 2, hour = 0, minute = 0, second = 0,
             microsecond = 0, tzinfo = gettz example_env (timezone example_processor)\<rparr>"
  let ?fs1 = "example_fs(?raw \<mapsto> Xlsx example_raw_workbook)"
  let ?fs0 = "?fs1(?new \<mapsto> Xlsx example_template_workbook)"
  have b: "os_path_basename ?t = ''3895th_070124.xlsx''"
    by (simp add: os_path_basename_def)
  have wd: "work_dir example_processor = ''/data/work''"
    by (simp add: example_processor_def)
  have raw: "os_path_join (work_dir example_processor) [''raw_export.xlsx''] = ?raw"
    by (simp add: wd os_path_join_def join2_def)
  have new: "os_path_join (work_dir example_processor) [''3895th_070224.xlsx''] = ?new"
    by (simp add: wd os_path_join_def join2_def)
  have dp: "dated_workbook_path example_processor ?d = ?new"
    by (simp add: dated_workbook_path_def strftime_mdy_070224 new)
  have cp: "shutil_copy example_env ?fs1 ?t ?new = Inr ?fs0"
    by (simp add: shutil_copy_def example_fs_def example_env_def)
  have l1: "load_workbook ?fs0 ?raw = Inr example_raw_workbook"
    by (simp add: load_workbook_def)
  have l2: "load_workbook ?fs0 ?new = Inr example_template_workbook"
    by (simp add: load_workbook_def)
  have s1: "map_of example_raw_workbook ''RAW'' = Some (snd (hd example_raw_workbook))"
    by (simp add: example_raw_workbook_def)
  have s2: "map_of example_template_workbook ''Raw Import''
              = Some (snd (example_template_workbook ! 1))"
    by (simp add: example_template_workbook_def)
  have ms: "\<exists>fs2. merge_and_save example_env ?fs0 ?raw ?new = Inr fs2"
    unfolding merge_and_save_unfold[OF l1 l2 s1 s2]
    by (simp add: save_workbook_def example_env_def)
  have mb: "fst (merge_body example_processor example_env ?fs0 ?raw ?new) = Inr ?new"
    using ms merge_body_after_save by fastforce
  have um: "fst (update_master_workbook example_processor example_env ?fs1 ?raw ?t (Some ?d))
              = Inr ?new"
  proof -
    have td: "merge_target_date example_processor example_env ?t (Some ?d) = Inr ?d"
      by (simp add: merge_target_date_def)
    have cp': "shutil_copy example_env ?fs1 ?t (dated_workbook_path example_processor ?d)
                 = Inr ?fs0"
      unfolding dp by (rule cp)
    show ?thesis
      unfolding update_master_workbook_unfold[OF td cp'] dp using mb
      by (cases "merge_body example_processor example_env ?fs0 ?raw ?new") auto
  qed
  have mk: "\<not> makedirs_fails example_env (work_dir example_processor)"
    by (simp add: example_env_def)
  from process_070124[OF b, where p = example_processor and env = example_env and fs = example_fs]
  have pr: "process example_processor example_env example_fs ?t None =
               (case run_vde_export example_processor example_env example_fs ?raw (Some ?d) of
                  (Inl e, fs1, lg) \<Rightarrow> (Inl e, fs1)
                | (Inr out, fs1, lg) \<Rightarrow>
                    update_master_workbook example_processor example_env fs1 ?raw ?t (Some ?d))"
    unfolding Let_def raw using mk by simp
  have "fst (process example_processor example_env example_fs ?t None) = Inr ?new"
    unfolding pr using example_export[of example_fs ?raw ?d] um
    by (auto split: prod.splits sum.splits)
  with b example_export[of example_fs ?raw ?d] show ?thesis by simp
qed

end
